theory Spec2Isabelle
  imports Complex_Main
begin

section \<open>JavaScript strings\<close>

text \<open>
  The services of \<^verbatim>\<open>src/index.ts\<close> and of the search-services module
  (\<^verbatim>\<open>src/unnamed/part_004\<close>) work on JavaScript strings. A string is modelled as a
  \<^typ>\<open>string\<close>, one \<^typ>\<open>char\<close> per code unit. Case conversion and the
  character classes of the regular expressions are modelled on ASCII: a code unit
  outside ASCII is no letter, no digit and no white space, and case conversion keeps it.
  A JavaScript number is modelled as a \<^typ>\<open>rat\<close>: every finite double is a rational,
  the scores are sums of small integers, and the code only adds and compares them.
\<close>

definition toLowerCaseChar :: "char \<Rightarrow> char" where
  "toLowerCaseChar c =
     (case map_of (zip ''ABCDEFGHIJKLMNOPQRSTUVWXYZ'' ''abcdefghijklmnopqrstuvwxyz'') c of
        Some d \<Rightarrow> d
      | None \<Rightarrow> c)"

definition toUpperCaseChar :: "char \<Rightarrow> char" where
  "toUpperCaseChar c =
     (case map_of (zip ''abcdefghijklmnopqrstuvwxyz'' ''ABCDEFGHIJKLMNOPQRSTUVWXYZ'') c of
        Some d \<Rightarrow> d
      | None \<Rightarrow> c)"

definition toLowerCase :: "string \<Rightarrow> string" where
  "toLowerCase s = map toLowerCaseChar s"

text \<open>The classes \<^verbatim>\<open>\w\<close> and \<^verbatim>\<open>\s\<close> of a regular expression.\<close>

definition isWordChar :: "char \<Rightarrow> bool" where
  "isWordChar c =
     (c \<in> set ''abcdefghijklmnopqrstuvwxyzABCDEFGHIJKLMNOPQRSTUVWXYZ0123456789_'')"

definition isSpaceChar :: "char \<Rightarrow> bool" where
  "isSpaceChar c =
     (c \<in> set [CHR 0x20, CHR 0x09, CHR 0x0A, CHR 0x0B, CHR 0x0C, CHR 0x0D])"

definition isUpperChar :: "char \<Rightarrow> bool" where
  "isUpperChar c = (c \<in> set ''ABCDEFGHIJKLMNOPQRSTUVWXYZ'')"

definition isLowerChar :: "char \<Rightarrow> bool" where
  "isLowerChar c = (c \<in> set ''abcdefghijklmnopqrstuvwxyz'')"

text \<open>\<^verbatim>\<open>s.startsWith(p)\<close> and \<^verbatim>\<open>s.includes(p)\<close>.\<close>

fun startsWith :: "string \<Rightarrow> string \<Rightarrow> bool" where
  "startsWith s [] = True"
| "startsWith [] (p # ps) = False"
| "startsWith (c # cs) (p # ps) = (c = p \<and> startsWith cs ps)"

fun includes_str :: "string \<Rightarrow> string \<Rightarrow> bool" where
  "includes_str [] p = (p = [])"
| "includes_str (c # cs) p = (startsWith (c # cs) p \<or> includes_str cs p)"

text \<open>\<^verbatim>\<open>s.trim()\<close> removes the white space at both ends.\<close>

definition trim :: "string \<Rightarrow> string" where
  "trim s = rev (dropWhile isSpaceChar (rev (dropWhile isSpaceChar s)))"

text \<open>
  \<^verbatim>\<open>s.split(" ")\<close> cuts at every single space: the empty string gives one empty
  piece, and two spaces in a row give an empty piece between them.
\<close>

fun split_space :: "string \<Rightarrow> string list" where
  "split_space [] = [[]]"
| "split_space (c # cs) =
     (if c = CHR '' '' then [] # split_space cs
      else (case split_space cs of
              [] \<Rightarrow> [[c]]
            | w # ws \<Rightarrow> (c # w) # ws))"

text \<open>\<^verbatim>\<open>parts.join(sep)\<close>.\<close>

fun join :: "string \<Rightarrow> string list \<Rightarrow> string" where
  "join sep [] = []"
| "join sep [x] = x"
| "join sep (x # y # ys) = x @ sep @ join sep (y # ys)"

text \<open>The template \<^verbatim>\<open>`"${term}"`\<close>: the term between two double quotes.\<close>

definition quoted :: "string \<Rightarrow> string" where
  "quoted t = [CHR 0x22] @ t @ [CHR 0x22]"

text \<open>
  \<^verbatim>\<open>toTitleCase\<close>: \<^verbatim>\<open>str.replace(/\w\S*/g, (txt) => txt.charAt(0).toUpperCase() +
  txt.substr(1).toLowerCase())\<close>. Scanning from the left, every word character starts a
  token that runs to the next white space; its first character is put in upper case and
  the rest in lower case. Everything between the tokens is kept.
\<close>

function toTitleCase :: "string \<Rightarrow> string" where
  "toTitleCase [] = []"
| "toTitleCase (c # cs) =
     (if isWordChar c
      then toUpperCaseChar c # map toLowerCaseChar (takeWhile (\<lambda>d. \<not> isSpaceChar d) cs)
             @ toTitleCase (dropWhile (\<lambda>d. \<not> isSpaceChar d) cs)
      else c # toTitleCase cs)"
  by pat_completeness auto
termination
  by (relation "measure length") (auto simp: length_dropWhile_le less_Suc_eq_le)

section \<open>Regular expressions\<close>

text \<open>
  A regular expression of the source is modelled as a backtracking matcher: from a state
  (what capture group 1 holds, and the input that is left) it gives the states in which
  a match can end, in the order in which the engine tries them. The first state is the
  match that JavaScript reports. Greedy operators list the longer alternative first.
\<close>

type_synonym mstate = "string option \<times> string"

type_synonym matcher = "mstate \<Rightarrow> mstate list"

text \<open>A literal, a literal under the \<^verbatim>\<open>i\<close> flag, and one character of a class.\<close>

definition lit :: "string \<Rightarrow> matcher" where
  "lit p = (\<lambda>(g, s). if startsWith s p then [(g, drop (length p) s)] else [])"

definition litI :: "string \<Rightarrow> matcher" where
  "litI p = (\<lambda>(g, s). if length p \<le> length s \<and>
                          toLowerCase (take (length p) s) = toLowerCase p
                       then [(g, drop (length p) s)] else [])"

definition cls :: "(char \<Rightarrow> bool) \<Rightarrow> matcher" where
  "cls P = (\<lambda>(g, s). case s of [] \<Rightarrow> [] | c # cs \<Rightarrow> if P c then [(g, cs)] else [])"

text \<open>Sequence, alternative \<^verbatim>\<open>a|b\<close>, and the greedy \<^verbatim>\<open>a?\<close>.\<close>

definition seq :: "matcher \<Rightarrow> matcher \<Rightarrow> matcher" where
  "seq m1 m2 = (\<lambda>st. concat (map m2 (m1 st)))"

definition alt :: "matcher \<Rightarrow> matcher \<Rightarrow> matcher" where
  "alt m1 m2 = (\<lambda>st. m1 st @ m2 st)"

definition eps :: matcher where
  "eps = (\<lambda>st. [st])"

definition opt :: "matcher \<Rightarrow> matcher" where
  "opt m = alt m eps"

text \<open>
  The greedy \<^verbatim>\<open>a*\<close>: one more round of \<^verbatim>\<open>a\<close> first, then none. A round that consumes
  nothing is not repeated, so the length of the input bounds the number of rounds.
\<close>

primrec star_rounds :: "nat \<Rightarrow> matcher \<Rightarrow> matcher" where
  "star_rounds 0 m = eps"
| "star_rounds (Suc n) m =
     (\<lambda>st. concat (map (\<lambda>st'. if length (snd st') < length (snd st)
                                then star_rounds n m st' else [])
                        (m st))
           @ [st])"

definition star :: "matcher \<Rightarrow> matcher" where
  "star m = (\<lambda>st. star_rounds (length (snd st)) m st)"

definition plus :: "matcher \<Rightarrow> matcher" where
  "plus m = seq m (star m)"

text \<open>Capture group 1: what the enclosed matcher consumed.\<close>

definition grp :: "matcher \<Rightarrow> matcher" where
  "grp m = (\<lambda>(g, s). map (\<lambda>(g', s'). (Some (take (length s - length s') s), s'))
                          (m (g, s)))"

text \<open>
  The result of \<^verbatim>\<open>RegExp.prototype.exec\<close>: \<^verbatim>\<open>match[0]\<close> is the text matched and
  \<^verbatim>\<open>match[1]\<close> is capture group 1.
\<close>

record regexp_match =
  match0 :: string
  match1 :: "string option"

text \<open>A match at the start of the input only (a pattern that begins with \<^verbatim>\<open>^\<close>).\<close>

definition exec_at :: "matcher \<Rightarrow> string \<Rightarrow> regexp_match option" where
  "exec_at m s =
     (case m (None, s) of
        [] \<Rightarrow> None
      | (g, r) # _ \<Rightarrow> Some \<lparr>match0 = take (length s - length r) s, match1 = g\<rparr>)"

text \<open>The leftmost match: the engine tries every start position from the left.\<close>

fun exec :: "matcher \<Rightarrow> string \<Rightarrow> regexp_match option" where
  "exec m [] = exec_at m []"
| "exec m (c # cs) =
     (case exec_at m (c # cs) of
        Some r \<Rightarrow> Some r
      | None \<Rightarrow> exec m cs)"

text \<open>\<^verbatim>\<open>pattern.test(s)\<close>.\<close>

definition test :: "matcher \<Rightarrow> string \<Rightarrow> bool" where
  "test m s = (exec m s \<noteq> None)"

section \<open>The profile extractor\<close>

text \<open>
  The class \<^verbatim>\<open>ProfileExtractor\<close> stands twice in the repository: in \<^verbatim>\<open>src/index.ts\<close>
  and in the search-services module (\<^verbatim>\<open>src/unnamed/part_004\<close>). The two copies differ
  in \<^verbatim>\<open>extractLocation\<close>, \<^verbatim>\<open>calculateConfidence\<close> and \<^verbatim>\<open>validateProfile\<close>. A name
  that ends in \<^verbatim>\<open>_primary\<close> is the function of \<^verbatim>\<open>src/index.ts\<close>, one that ends in
  \<^verbatim>\<open>_alternate\<close> is the function of the search-services module.
\<close>

text \<open>
  The fields of a record carry a prefix where the source uses one field name in two
  interfaces: \<^verbatim>\<open>item_title\<close> is \<^verbatim>\<open>title\<close> of \<^verbatim>\<open>GoogleSearchItem\<close>, \<^verbatim>\<open>serp_title\<close> is
  \<^verbatim>\<open>title\<close> of \<^verbatim>\<open>SerpApiSearchItem\<close>, and \<^verbatim>\<open>profile_title\<close> is \<^verbatim>\<open>title\<close> of
  \<^verbatim>\<open>LinkedInProfile\<close>.
\<close>

record GoogleSearchItem =
  item_title :: string
  item_link :: string
  item_snippet :: string

record GoogleSearchResponse =
  items :: "GoogleSearchItem list option"

record SerpApiSearchItem =
  serp_title :: string
  serp_link :: string
  serp_snippet :: string

record SerpApiResponse =
  organic_results :: "SerpApiSearchItem list option"

record LinkedInProfile =
  profile_name :: string
  profile_title :: string
  profile_company :: string
  linkedin_url :: string
  profile_snippet :: string
  confidence_score :: rat
  profile_location :: "string option"
  profile_sources :: "string list"

text \<open>The list \<^verbatim>\<open>this.executiveTitles\<close> of the class \<^verbatim>\<open>ProfileExtractor\<close>.\<close>

definition executiveTitles :: "string list" where
  "executiveTitles =
     [''cto'', ''chief technology officer'', ''vp technology'', ''head of technology'',
      ''technology director'', ''vp engineering'', ''chief technical officer'',
      ''head of engineering'', ''tech lead'', ''engineering director'', ''technology vp'']"

text \<open>\<^verbatim>\<open>/https?:\/\/(?:www\.)?linkedin\.com\/in\/[\w\-]+/\<close>\<close>

definition linkedinUrlPattern :: matcher where
  "linkedinUrlPattern =
     seq (lit ''http'') (seq (opt (lit ''s'')) (seq (lit ''://'')
       (seq (opt (lit ''www.'')) (seq (lit ''linkedin.com/in/'')
         (plus (cls (\<lambda>c. isWordChar c \<or> c = CHR ''-'')))))))"

text \<open>\<^verbatim>\<open>/^([^-|:]+)/\<close>, matched at the start of the title.\<close>

definition namePattern :: matcher where
  "namePattern = grp (plus (cls (\<lambda>c. c \<notin> set ''-|:'')))"

text \<open>
  \<^verbatim>\<open>companyPatterns\<close>: \<^verbatim>\<open>/at ([^|,\-\n]+)/\<close>, \<^verbatim>\<open>/@ ([^|,\-\n]+)/\<close> and
  \<^verbatim>\<open>/(\w+(?:\s+\w+)*) \-/\<close>.
\<close>

definition companyChar :: "char \<Rightarrow> bool" where
  "companyChar c = (c \<notin> set [CHR ''|'', CHR '','', CHR ''-'', CHR 0x0A])"

definition companyPatterns :: "matcher list" where
  "companyPatterns =
     [seq (lit ''at '') (grp (plus (cls companyChar))),
      seq (lit ''@ '') (grp (plus (cls companyChar))),
      seq (grp (seq (plus (cls isWordChar))
                    (star (seq (plus (cls isSpaceChar)) (plus (cls isWordChar))))))
          (lit '' -'')]"

text \<open>The first pattern of a list that matches, with its match.\<close>

fun firstMatch :: "matcher list \<Rightarrow> string \<Rightarrow> regexp_match option" where
  "firstMatch [] s = None"
| "firstMatch (pattern # patterns) s =
     (case exec pattern s of
        Some r \<Rightarrow> Some r
      | None \<Rightarrow> firstMatch patterns s)"

text \<open>
  \<^verbatim>\<open>match[1]\<close> as a string. In every pattern of the source the group stands on the only
  path through the pattern, so a match always sets it.
\<close>

definition group1 :: "regexp_match \<Rightarrow> string" where
  "group1 r = (case match1 r of Some g \<Rightarrow> g | None \<Rightarrow> [])"

text \<open>
  \<^verbatim>\<open>extractTitleAndCompany\<close>. The copy of \<^verbatim>\<open>src/index.ts\<close> applies \<^verbatim>\<open>toTitleCase\<close> to
  the company when it returns, the copy of the search-services module when it assigns.
\<close>

definition extractTitleAndCompany_alternate :: "string \<Rightarrow> string \<Rightarrow> string \<times> string" where
  "extractTitleAndCompany_alternate title snippet =
     (let text = toLowerCase (title @ '' '' @ snippet);
          jobTitle = (case find (\<lambda>execTitle. includes_str text execTitle) executiveTitles of
                        Some execTitle \<Rightarrow> execTitle
                      | None \<Rightarrow> []);
          company = (case firstMatch companyPatterns text of
                       Some r \<Rightarrow> toTitleCase (trim (group1 r))
                     | None \<Rightarrow> [])
      in (toTitleCase jobTitle, company))"

definition extractTitleAndCompany_primary :: "string \<Rightarrow> string \<Rightarrow> string \<times> string" where
  "extractTitleAndCompany_primary title snippet =
     (let text = toLowerCase (title @ '' '' @ snippet);
          jobTitle = (case find (\<lambda>execTitle. includes_str text execTitle) executiveTitles of
                        Some execTitle \<Rightarrow> execTitle
                      | None \<Rightarrow> []);
          company = (case firstMatch companyPatterns text of
                       Some r \<Rightarrow> trim (group1 r)
                     | None \<Rightarrow> [])
      in (toTitleCase jobTitle, toTitleCase company))"

text \<open>
  \<^verbatim>\<open>extractLocation\<close> of the search-services module. Its patterns carry the \<^verbatim>\<open>g\<close>
  flag, so \<^verbatim>\<open>snippet.match\<close> gives the texts of all matches and \<^verbatim>\<open>matches[0]\<close> is
  the text of the leftmost one:
  \<^verbatim>\<open>/([A-Z][a-z]+,\s*[A-Z]{2,})/g\<close>, \<^verbatim>\<open>/([A-Z][a-z]+\s+[A-Z][a-z]+,\s*[A-Z]{2,})/g\<close> and the
  city names under \<^verbatim>\<open>gi\<close>.
\<close>

definition cityNames :: "string list" where
  "cityNames =
     [''San Francisco'', ''New York'', ''Los Angeles'', ''Seattle'', ''Boston'', ''Austin'',
      ''Chicago'', ''London'', ''Berlin'', ''Paris'', ''Tokyo'', ''Singapore'', ''Toronto'',
      ''Vancouver'']"

definition capitalised :: matcher where
  "capitalised = seq (cls isUpperChar) (plus (cls isLowerChar))"

definition locationPatterns_alternate :: "matcher list" where
  "locationPatterns_alternate =
     [seq capitalised (seq (lit '','') (seq (star (cls isSpaceChar))
        (seq (cls isUpperChar) (plus (cls isUpperChar))))),
      seq capitalised (seq (plus (cls isSpaceChar)) (seq capitalised (seq (lit '','')
        (seq (star (cls isSpaceChar)) (seq (cls isUpperChar) (plus (cls isUpperChar))))))),
      foldr (\<lambda>city m. alt (litI city) m) cityNames (\<lambda>st. [])]"

definition extractLocation_alternate :: "string \<Rightarrow> string option" where
  "extractLocation_alternate snippet =
     (case firstMatch locationPatterns_alternate snippet of
        Some r \<Rightarrow> Some (match0 r)
      | None \<Rightarrow> None)"

text \<open>
  \<^verbatim>\<open>extractLocation\<close> of \<^verbatim>\<open>src/index.ts\<close> returns \<^verbatim>\<open>match[1].trim()\<close> of the first of
  \<^verbatim>\<open>/(?:based|located|from|in)\s+(?:in\s+)?([A-Z][a-z]+(?:,\s*[A-Z][a-z]+)*)/\<close>,
  \<^verbatim>\<open>/([A-Z][a-z]+,\s*[A-Z]{2,3})/\<close> and \<^verbatim>\<open>/([A-Z][a-z]+\s+Area)/\<close> that matches.
\<close>

definition locationPatterns_primary :: "matcher list" where
  "locationPatterns_primary =
     [seq (alt (lit ''based'') (alt (lit ''located'') (alt (lit ''from'') (lit ''in''))))
        (seq (plus (cls isSpaceChar))
          (seq (opt (seq (lit ''in'') (plus (cls isSpaceChar))))
            (grp (seq capitalised
                   (star (seq (lit '','') (seq (star (cls isSpaceChar)) capitalised))))))),
      grp (seq capitalised (seq (lit '','') (seq (star (cls isSpaceChar))
        (seq (cls isUpperChar) (seq (cls isUpperChar) (opt (cls isUpperChar))))))),
      grp (seq capitalised (seq (plus (cls isSpaceChar)) (lit ''Area'')))]"

definition extractLocation_primary :: "string \<Rightarrow> string option" where
  "extractLocation_primary snippet =
     (case firstMatch locationPatterns_primary snippet of
        Some r \<Rightarrow> Some (trim (group1 r))
      | None \<Rightarrow> None)"

subsection \<open>Confidence scores\<close>

text \<open>
  \<^verbatim>\<open>calculateConfidence\<close> of \<^verbatim>\<open>src/index.ts\<close> (the primary formula): 40 for a job
  title that contains an executive title, 30 when the company contains the search
  context or else 20 when the snippet does, 20 when job title and company are both
  there, 10 for a snippet of more than 100 characters, and \<^verbatim>\<open>Math.min(score, 100.0)\<close>.
\<close>

definition calculateConfidence_primary :: "string \<Rightarrow> string \<Rightarrow> string \<Rightarrow> string \<Rightarrow> rat" where
  "calculateConfidence_primary jobTitle company searchContext snippet =
     (let score0 = (0 :: rat);
          score1 = (if list_ex (\<lambda>execTitle. includes_str (toLowerCase jobTitle) execTitle)
                         executiveTitles
                    then score0 + 40 else score0);
          score2 = (if searchContext \<noteq> [] \<and>
                       includes_str (toLowerCase company) (toLowerCase searchContext)
                    then score1 + 30
                    else if searchContext \<noteq> [] \<and>
                       includes_str (toLowerCase snippet) (toLowerCase searchContext)
                    then score1 + 20 else score1);
          score3 = (if jobTitle \<noteq> [] \<and> company \<noteq> [] then score2 + 20 else score2);
          score4 = (if length snippet > 100 then score3 + 10 else score3)
      in min score4 100)"

text \<open>
  \<^verbatim>\<open>calculateConfidence\<close> of the search-services module (the alternate formula): 30 for
  a job title, 40 more when it contains \<^verbatim>\<open>cto\<close> or \<^verbatim>\<open>chief technology officer\<close>, 20
  for a company, 2 for every word of the context that is longer than 3 characters and
  stands in the snippet, minus 20 for every false-positive marker in the snippet, and
  \<^verbatim>\<open>Math.max(0, Math.min(100, score))\<close>.
\<close>

definition falsePositives :: "string list" where
  "falsePositives = [''student'', ''intern'', ''former'', ''ex-'', ''previous'']"

definition calculateConfidence_alternate :: "string \<Rightarrow> string \<Rightarrow> string \<Rightarrow> string \<Rightarrow> rat" where
  "calculateConfidence_alternate jobTitle company searchContext snippet =
     (let score0 = (0 :: rat);
          score1 = (if jobTitle \<noteq> [] then score0 + 30 else score0);
          score2 = (if includes_str (toLowerCase jobTitle) ''cto'' \<or>
                       includes_str (toLowerCase jobTitle) ''chief technology officer''
                    then score1 + 40 else score1);
          score3 = (if company \<noteq> [] then score2 + 20 else score2);
          score4 = (if searchContext \<noteq> []
                    then foldl (\<lambda>score word.
                                  if length word > 3 \<and> includes_str (toLowerCase snippet) word
                                  then score + 2 else score)
                           score3 (split_space (toLowerCase searchContext))
                    else score3);
          score5 = foldl (\<lambda>score fp.
                            if includes_str (toLowerCase snippet) fp then score - 20 else score)
                     score4 falsePositives
      in max 0 (min 100 score5))"

subsection \<open>Parsing one item\<close>

text \<open>
  \<^verbatim>\<open>parseSearchItem\<close>: an item whose link fails \<^verbatim>\<open>linkedinUrlPattern.test\<close> gives
  \<^verbatim>\<open>null\<close>; any other item gives a profile. The interfaces type the three fields of an
  item as strings, on which \<^verbatim>\<open>item.link || ""\<close> is the link itself.
\<close>

definition extractName :: "string \<Rightarrow> string" where
  "extractName title =
     (case exec_at namePattern title of
        Some nameMatch \<Rightarrow> trim (group1 nameMatch)
      | None \<Rightarrow> [])"

definition parseSearchItem_alternate :: "GoogleSearchItem \<Rightarrow> string \<Rightarrow> LinkedInProfile option" where
  "parseSearchItem_alternate item searchContext =
     (let url = item_link item
      in if \<not> test linkedinUrlPattern url then None
         else
           (let title = item_title item;
                snippet = item_snippet item;
                name = extractName title;
                (jobTitle, company) = extractTitleAndCompany_alternate title snippet;
                location = extractLocation_alternate snippet;
                confidence = calculateConfidence_alternate jobTitle company searchContext snippet
            in Some \<lparr>profile_name = name, profile_title = jobTitle, profile_company = company,
                      linkedin_url = url, profile_snippet = snippet,
                      confidence_score = confidence, profile_location = location,
                      profile_sources = [''Google Custom Search'']\<rparr>))"

definition parseSearchItem_primary :: "GoogleSearchItem \<Rightarrow> string \<Rightarrow> LinkedInProfile option" where
  "parseSearchItem_primary item searchContext =
     (let url = item_link item
      in if \<not> test linkedinUrlPattern url then None
         else
           (let title = item_title item;
                snippet = item_snippet item;
                name = extractName title;
                (jobTitle, company) = extractTitleAndCompany_primary title snippet;
                location = extractLocation_primary snippet;
                confidence = calculateConfidence_primary jobTitle company searchContext snippet
            in Some \<lparr>profile_name = name, profile_title = jobTitle, profile_company = company,
                      linkedin_url = url, profile_snippet = snippet,
                      confidence_score = confidence, profile_location = location,
                      profile_sources = [''Google Custom Search'']\<rparr>))"

subsection \<open>The validity filter\<close>

text \<open>
  \<^verbatim>\<open>validateProfile\<close> of \<^verbatim>\<open>src/index.ts\<close>:
  \<^verbatim>\<open>confidence_score >= 20.0 && Boolean(name) && Boolean(linkedin_url) && name.length >= 2\<close>.
\<close>

definition validateProfile_primary :: "LinkedInProfile \<Rightarrow> bool" where
  "validateProfile_primary profile =
     (confidence_score profile \<ge> 20 \<and> profile_name profile \<noteq> [] \<and>
      linkedin_url profile \<noteq> [] \<and> length (profile_name profile) \<ge> 2)"

text \<open>
  \<^verbatim>\<open>validateProfile\<close> of the search-services module:
  \<^verbatim>\<open>name.length > 0 && linkedin_url.length > 0 && confidence_score > 10\<close>.
\<close>

definition validateProfile_alternate :: "LinkedInProfile \<Rightarrow> bool" where
  "validateProfile_alternate profile =
     (length (profile_name profile) > 0 \<and> length (linkedin_url profile) > 0 \<and>
      confidence_score profile > 10)"

subsection \<open>Extracting the profiles of a response\<close>

text \<open>
  \<^verbatim>\<open>extractProfiles\<close>: the loop \<^verbatim>\<open>for (const item of searchResponse.items)\<close> pushes
  every profile that parses and is valid; \<^verbatim>\<open>profiles\<close> is the array built so far.
\<close>

fun extractProfiles_loop_alternate ::
  "GoogleSearchItem list \<Rightarrow> string \<Rightarrow> LinkedInProfile list \<Rightarrow> LinkedInProfile list" where
  "extractProfiles_loop_alternate [] searchContext profiles = profiles"
| "extractProfiles_loop_alternate (item # rest) searchContext profiles =
     extractProfiles_loop_alternate rest searchContext
       (case parseSearchItem_alternate item searchContext of
          None \<Rightarrow> profiles
        | Some profile \<Rightarrow>
            if validateProfile_alternate profile then profiles @ [profile] else profiles)"

definition extractProfiles_alternate :: "GoogleSearchResponse \<Rightarrow> string \<Rightarrow> LinkedInProfile list" where
  "extractProfiles_alternate searchResponse searchContext =
     (case items searchResponse of
        None \<Rightarrow> []
      | Some its \<Rightarrow> extractProfiles_loop_alternate its searchContext [])"

fun extractProfiles_loop_primary ::
  "GoogleSearchItem list \<Rightarrow> string \<Rightarrow> LinkedInProfile list \<Rightarrow> LinkedInProfile list" where
  "extractProfiles_loop_primary [] searchContext profiles = profiles"
| "extractProfiles_loop_primary (item # rest) searchContext profiles =
     extractProfiles_loop_primary rest searchContext
       (case parseSearchItem_primary item searchContext of
          None \<Rightarrow> profiles
        | Some profile \<Rightarrow>
            if validateProfile_primary profile then profiles @ [profile] else profiles)"

definition extractProfiles_primary :: "GoogleSearchResponse \<Rightarrow> string \<Rightarrow> LinkedInProfile list" where
  "extractProfiles_primary searchResponse searchContext =
     (case items searchResponse of
        None \<Rightarrow> []
      | Some its \<Rightarrow> extractProfiles_loop_primary its searchContext [])"

text \<open>
  \<^verbatim>\<open>extractProfilesFromSerpApi\<close>: the loop over \<^verbatim>\<open>searchResponse.organic_results\<close> first
  builds \<^verbatim>\<open>googleItem\<close> from the three fields of the item and then does what
  \<^verbatim>\<open>extractProfiles\<close> does.
\<close>

definition googleItem :: "SerpApiSearchItem \<Rightarrow> GoogleSearchItem" where
  "googleItem item =
     \<lparr>item_title = serp_title item, item_link = serp_link item,
      item_snippet = serp_snippet item\<rparr>"

fun extractProfilesFromSerpApi_loop_alternate ::
  "SerpApiSearchItem list \<Rightarrow> string \<Rightarrow> LinkedInProfile list \<Rightarrow> LinkedInProfile list" where
  "extractProfilesFromSerpApi_loop_alternate [] searchContext profiles = profiles"
| "extractProfilesFromSerpApi_loop_alternate (item # rest) searchContext profiles =
     extractProfilesFromSerpApi_loop_alternate rest searchContext
       (case parseSearchItem_alternate (googleItem item) searchContext of
          None \<Rightarrow> profiles
        | Some profile \<Rightarrow>
            if validateProfile_alternate profile then profiles @ [profile] else profiles)"

definition extractProfilesFromSerpApi_alternate ::
  "SerpApiResponse \<Rightarrow> string \<Rightarrow> LinkedInProfile list" where
  "extractProfilesFromSerpApi_alternate searchResponse searchContext =
     (case organic_results searchResponse of
        None \<Rightarrow> []
      | Some rs \<Rightarrow> extractProfilesFromSerpApi_loop_alternate rs searchContext [])"

fun extractProfilesFromSerpApi_loop_primary ::
  "SerpApiSearchItem list \<Rightarrow> string \<Rightarrow> LinkedInProfile list \<Rightarrow> LinkedInProfile list" where
  "extractProfilesFromSerpApi_loop_primary [] searchContext profiles = profiles"
| "extractProfilesFromSerpApi_loop_primary (item # rest) searchContext profiles =
     extractProfilesFromSerpApi_loop_primary rest searchContext
       (case parseSearchItem_primary (googleItem item) searchContext of
          None \<Rightarrow> profiles
        | Some profile \<Rightarrow>
            if validateProfile_primary profile then profiles @ [profile] else profiles)"

definition extractProfilesFromSerpApi_primary ::
  "SerpApiResponse \<Rightarrow> string \<Rightarrow> LinkedInProfile list" where
  "extractProfilesFromSerpApi_primary searchResponse searchContext =
     (case organic_results searchResponse of
        None \<Rightarrow> []
      | Some rs \<Rightarrow> extractProfilesFromSerpApi_loop_primary rs searchContext [])"

section \<open>The query builder\<close>

text \<open>
  An \<^verbatim>\<open>async\<close> function either rejects with an exception or resolves with a value: its
  result is a sum, \<^term>\<open>Inl\<close> the exception. \<^verbatim>\<open>TypeError\<close> is what the engine throws
  when a value that is no function is called, \<^verbatim>\<open>Error\<close> is the \<^verbatim>\<open>new Error(...)\<close> that
  \<^verbatim>\<open>executeSearch\<close> throws.
\<close>

datatype exception = TypeError | Error

text \<open>
  Reading \<^verbatim>\<open>obj[key]\<close> on an object literal: an own property gives its value; a key
  that the literal does not have is looked up in \<^verbatim>\<open>Object.prototype\<close>, whose properties
  are functions (and, for \<^verbatim>\<open>__proto__\<close>, the prototype object itself); any other key
  gives \<^verbatim>\<open>undefined\<close>.
\<close>

datatype 'v property = Own 'v | Inherited | Undefined

definition objectPrototypeKeys :: "string list" where
  "objectPrototypeKeys =
     [''constructor'', ''__defineGetter__'', ''__defineSetter__'', ''hasOwnProperty'',
      ''__lookupGetter__'', ''__lookupSetter__'', ''isPrototypeOf'',
      ''propertyIsEnumerable'', ''toString'', ''valueOf'', ''__proto__'',
      ''toLocaleString'']"

definition getProperty :: "(string \<times> 'v) list \<Rightarrow> string \<Rightarrow> 'v property" where
  "getProperty obj key =
     (case map_of obj key of
        Some v \<Rightarrow> Own v
      | None \<Rightarrow> if key \<in> set objectPrototypeKeys then Inherited else Undefined)"

text \<open>The tables \<^verbatim>\<open>sectorKeywords\<close> and \<^verbatim>\<open>typeKeywords\<close> of \<^verbatim>\<open>searchCtoProfiles\<close>.\<close>

definition sectorKeywords :: "(string \<times> string list) list" where
  "sectorKeywords =
     [(''software'', [''software'', ''SaaS'', ''tech'', ''technology'']),
      (''fintech'', [''fintech'', ''financial technology'', ''finance'', ''banking'']),
      (''healthcare'', [''healthcare'', ''medical'', ''health tech'', ''biotech'']),
      (''e-commerce'', [''e-commerce'', ''ecommerce'', ''retail'', ''online'']),
      (''AI/ML'', [''AI'', ''ML'', ''artificial intelligence'', ''machine learning'']),
      (''cybersecurity'', [''cybersecurity'', ''security'', ''infosec'']),
      (''blockchain'', [''blockchain'', ''crypto'', ''web3'']),
      (''IoT'', [''IoT'', ''Internet of Things'', ''connected devices'']),
      (''gaming'', [''gaming'', ''game'', ''entertainment''])]"

definition typeKeywords :: "(string \<times> string list) list" where
  "typeKeywords =
     [(''startup'', [''startup'', ''early stage'', ''seed'']),
      (''SME'', [''SME'', ''medium business'', ''scale-up'']),
      (''enterprise'', [''enterprise'', ''Fortune'', ''large company'']),
      (''unicorn'', [''unicorn'', ''billion'', ''$1B'']),
      (''public'', [''public company'', ''NYSE'', ''NASDAQ'', ''publicly traded''])]"

text \<open>
  \<^verbatim>\<open>keywords[value.toLowerCase()] || [value]\<close>: the array of an own property, the
  literal value alone when the lookup gives \<^verbatim>\<open>undefined\<close>, and the inherited property
  itself (an object that is no array) otherwise.
\<close>

datatype terms = Terms "string list" | NotAnArray

definition lookupTerms :: "(string \<times> string list) list \<Rightarrow> string \<Rightarrow> terms" where
  "lookupTerms keywords v =
     (case getProperty keywords (toLowerCase v) of
        Own ts \<Rightarrow> Terms ts
      | Inherited \<Rightarrow> NotAnArray
      | Undefined \<Rightarrow> Terms [v])"

text \<open>
  \<^verbatim>\<open>`(${terms.map((term) => `"${term}"`).join(" OR ")})`\<close>. Calling \<^verbatim>\<open>map\<close> on an object
  that has no such method throws a \<^verbatim>\<open>TypeError\<close>.
\<close>

fun disjunction :: "terms \<Rightarrow> exception + string" where
  "disjunction (Terms ts) = Inr (''('' @ join '' OR '' (map quoted ts) @ '')'')"
| "disjunction NotAnArray = Inl TypeError"

text \<open>
  An optional string parameter under \<^verbatim>\<open>if (region)\<close>: \<^verbatim>\<open>undefined\<close> and the empty
  string are both falsy.
\<close>

definition present :: "string option \<Rightarrow> string option" where
  "present v = (case v of None \<Rightarrow> None | Some x \<Rightarrow> if x = [] then None else Some x)"

text \<open>The constant arrays \<^verbatim>\<open>executiveTitles\<close> and \<^verbatim>\<open>excludes\<close> of \<^verbatim>\<open>searchCtoProfiles\<close>.\<close>

definition queryTitles :: "string list" where
  "queryTitles =
     [''CTO'', ''Chief Technology Officer'', ''VP Technology'', ''Head of Technology'',
      ''Technology Director'', ''VP Engineering'', ''Chief Technical Officer'',
      ''Head of Engineering'', ''Tech Lead'', ''Engineering Director'', ''Technology VP'',
      ''Chief Technology'', ''VP of Technology'', ''VP of Engineering'', ''Head of Tech'']"

definition excludes :: "string list" where
  "excludes = [''Intern'', ''Student'', ''Former'', ''Ex-'', ''Previous'', ''Consultant'']"

text \<open>
  \<^verbatim>\<open>pushKeywords\<close> is one of the two blocks \<^verbatim>\<open>if (companySector) { ... }\<close> and
  \<^verbatim>\<open>if (companyType) { ... }\<close>: it pushes the disjunction of the terms, or throws.
\<close>

definition pushKeywords ::
  "(string \<times> string list) list \<Rightarrow> string option \<Rightarrow> string list \<Rightarrow> exception + string list" where
  "pushKeywords keywords v queryParts =
     (case present v of
        None \<Rightarrow> Inr queryParts
      | Some x \<Rightarrow>
          (case disjunction (lookupTerms keywords x) of
             Inl e \<Rightarrow> Inl e
           | Inr clause \<Rightarrow> Inr (queryParts @ [clause])))"

text \<open>
  \<^verbatim>\<open>buildQuery\<close> is the part of \<^verbatim>\<open>searchCtoProfiles\<close> (the same text in both services,
  in both files, and in \<^verbatim>\<open>searchCtoProfilesLimited\<close>) that ends with
  \<^verbatim>\<open>const query = queryParts.join(" ")\<close>.
\<close>

definition buildQuery ::
  "string option \<Rightarrow> string option \<Rightarrow> string option \<Rightarrow> string list option \<Rightarrow> exception + string" where
  "buildQuery region companySector companyType additionalTitles =
     (let titles = (case additionalTitles of
                      None \<Rightarrow> queryTitles
                    | Some extra \<Rightarrow> queryTitles @ extra);
          titleQuery = join '' OR '' (map quoted titles);
          queryParts0 = [''site:linkedin.com/in/'', ''('' @ titleQuery @ '')''];
          queryParts1 = (case present region of
                           None \<Rightarrow> queryParts0
                         | Some r \<Rightarrow> queryParts0 @ [quoted r])
      in case pushKeywords sectorKeywords companySector queryParts1 of
           Inl e \<Rightarrow> Inl e
         | Inr queryParts2 \<Rightarrow>
             (case pushKeywords typeKeywords companyType queryParts2 of
                Inl e \<Rightarrow> Inl e
              | Inr queryParts3 \<Rightarrow>
                  Inr (join '' ''
                         (foldl (\<lambda>queryParts exclude. queryParts @ [''-'' @ quoted exclude])
                            queryParts3 excludes))))"

section \<open>The page fetchers\<close>

text \<open>
  What one \<^verbatim>\<open>fetch\<close> followed by \<^verbatim>\<open>response.json()\<close> can do: reject (a transport error,
  or a body that is no JSON), answer with a status that is not ok, or answer ok with a
  body. A request is modelled by the three parameters that vary: \<^verbatim>\<open>q\<close>, \<^verbatim>\<open>num\<close> and
  \<^verbatim>\<open>start\<close>. The backend is a function from the number of the fetch within the run
  (counted from 0) to its outcome; a run returns the requests it made, in order. The
  delay between two fetches is not modelled.
\<close>

datatype 'r outcome = Rejected | Http_NotOk | Http_Ok 'r

record request =
  req_q :: string
  req_num :: int
  req_start :: "nat option"

subsection \<open>Bounded mode\<close>

text \<open>
  \<^verbatim>\<open>LinkedInProfileSearchService.executeSearch\<close>: a status that is not ok throws inside
  the \<^verbatim>\<open>try\<close>, and the \<^verbatim>\<open>catch\<close> throws a new \<^verbatim>\<open>Error\<close> for whatever was thrown.
\<close>

definition executeSearch_google ::
  "GoogleSearchResponse outcome \<Rightarrow> string \<Rightarrow> int \<Rightarrow> exception + GoogleSearchResponse \<times> request list" where
  "executeSearch_google fetched query numResults =
     (let params = \<lparr>req_q = query, req_num = min numResults 10, req_start = None\<rparr>
      in case fetched of
           Rejected \<Rightarrow> Inl Error
         | Http_NotOk \<Rightarrow> Inl Error
         | Http_Ok body \<Rightarrow> Inr (body, [params]))"

text \<open>
  \<^verbatim>\<open>SerpApiSearchService.executeSearch\<close>: the \<^verbatim>\<open>catch\<close> logs what was thrown and returns
  \<^verbatim>\<open>{ organic_results: [] }\<close>.
\<close>

definition executeSearch_serpapi ::
  "SerpApiResponse outcome \<Rightarrow> string \<Rightarrow> int \<Rightarrow> exception + SerpApiResponse \<times> request list" where
  "executeSearch_serpapi fetched query numResults =
     (let params = \<lparr>req_q = query, req_num = numResults, req_start = None\<rparr>
      in case fetched of
           Rejected \<Rightarrow> Inr (\<lparr>organic_results = Some []\<rparr>, [params])
         | Http_NotOk \<Rightarrow> Inr (\<lparr>organic_results = Some []\<rparr>, [params])
         | Http_Ok body \<Rightarrow> Inr (body, [params]))"

subsection \<open>Exhaustive mode\<close>

text \<open>
  \<^verbatim>\<open>LinkedInProfileSearchService.executeSearchAllPages\<close>: the loop
  \<^verbatim>\<open>while (hasMoreResults)\<close>. \<^term>\<open>sent\<close> holds the requests made so far, so the next fetch
  is number \<^term>\<open>length sent\<close>. A status that is not ok leaves the loop with \<^verbatim>\<open>break\<close>,
  an exception sets \<^verbatim>\<open>hasMoreResults = false\<close> in the \<^verbatim>\<open>catch\<close>; a page of fewer than
  \<^verbatim>\<open>maxResults\<close> items, a page without items and \<^verbatim>\<open>startIndex > 100\<close> after the
  increment set it to false as well.
\<close>

definition maxResults :: nat where
  "maxResults = 10"

function executeSearchAllPages_google_loop ::
  "(nat \<Rightarrow> GoogleSearchResponse outcome) \<Rightarrow> string \<Rightarrow> nat \<Rightarrow> GoogleSearchItem list \<Rightarrow>
   request list \<Rightarrow> GoogleSearchItem list \<times> request list" where
  "executeSearchAllPages_google_loop backend query startIndex allItems sent =
     (let sent' = sent @ [\<lparr>req_q = query, req_num = int maxResults,
                          req_start = Some startIndex\<rparr>]
      in case backend (length sent) of
           Rejected \<Rightarrow> (allItems, sent')
         | Http_NotOk \<Rightarrow> (allItems, sent')
         | Http_Ok body \<Rightarrow>
             (case items body of
                None \<Rightarrow> (allItems, sent')
              | Some page \<Rightarrow>
                  if length page > 0
                  then (if length page < maxResults then (allItems @ page, sent')
                        else if startIndex + maxResults > 100 then (allItems @ page, sent')
                        else executeSearchAllPages_google_loop backend query
                               (startIndex + maxResults) (allItems @ page) sent')
                  else (allItems, sent')))"
  by pat_completeness auto
termination
  by (relation "measure (\<lambda>(backend, query, startIndex, allItems, sent). 101 - startIndex)")
     (auto simp: maxResults_def)

definition executeSearchAllPages_google ::
  "(nat \<Rightarrow> GoogleSearchResponse outcome) \<Rightarrow> string \<Rightarrow>
   exception + GoogleSearchResponse \<times> request list" where
  "executeSearchAllPages_google backend query =
     (case executeSearchAllPages_google_loop backend query 1 [] [] of
        (allItems, sent) \<Rightarrow> Inr (\<lparr>items = Some allItems\<rparr>, sent))"

text \<open>
  \<^verbatim>\<open>SerpApiSearchService.executeSearchAllPages\<close>: the loop
  \<^verbatim>\<open>for (let page = 0; page < 10; page++)\<close>, left with \<^verbatim>\<open>break\<close> on a status that is not
  ok, on an exception, and on a page without results.
\<close>

function executeSearchAllPages_serpapi_loop ::
  "(nat \<Rightarrow> SerpApiResponse outcome) \<Rightarrow> string \<Rightarrow> nat \<Rightarrow> SerpApiSearchItem list \<Rightarrow>
   request list \<Rightarrow> SerpApiSearchItem list \<times> request list" where
  "executeSearchAllPages_serpapi_loop backend query page allResults sent =
     (if page < 10
      then (let start = page * 10;
                sent' = sent @ [\<lparr>req_q = query, req_num = 10, req_start = Some start\<rparr>]
            in case backend (length sent) of
                 Rejected \<Rightarrow> (allResults, sent')
               | Http_NotOk \<Rightarrow> (allResults, sent')
               | Http_Ok body \<Rightarrow>
                   (case organic_results body of
                      None \<Rightarrow> (allResults, sent')
                    | Some results \<Rightarrow>
                        if length results = 0 then (allResults, sent')
                        else executeSearchAllPages_serpapi_loop backend query (page + 1)
                               (allResults @ results) sent'))
      else (allResults, sent))"
  by pat_completeness auto
termination
  by (relation "measure (\<lambda>(backend, query, page, allResults, sent). 10 - page)") auto

definition executeSearchAllPages_serpapi ::
  "(nat \<Rightarrow> SerpApiResponse outcome) \<Rightarrow> string \<Rightarrow>
   exception + SerpApiResponse \<times> request list" where
  "executeSearchAllPages_serpapi backend query =
     (case executeSearchAllPages_serpapi_loop backend query 0 [] [] of
        (allResults, sent) \<Rightarrow> Inr (\<lparr>organic_results = Some allResults\<rparr>, sent))"

subsection \<open>The search entry points\<close>

text \<open>
  \<^verbatim>\<open>LinkedInProfileSearchService.searchCtoProfiles\<close> builds the query and fetches all
  pages; \<^verbatim>\<open>searchCtoProfilesLimited\<close> builds the same query and fetches one page;
  \<^verbatim>\<open>SerpApiSearchService.searchCtoProfiles\<close> chooses by \<^verbatim>\<open>getAllPages\<close>.
\<close>

definition searchCtoProfiles_google ::
  "(nat \<Rightarrow> GoogleSearchResponse outcome) \<Rightarrow> string option \<Rightarrow> string option \<Rightarrow>
   string option \<Rightarrow> string list option \<Rightarrow> exception + GoogleSearchResponse \<times> request list" where
  "searchCtoProfiles_google backend region companySector companyType additionalTitles =
     (case buildQuery region companySector companyType additionalTitles of
        Inl e \<Rightarrow> Inl e
      | Inr query \<Rightarrow> executeSearchAllPages_google backend query)"

definition searchCtoProfilesLimited_google ::
  "(nat \<Rightarrow> GoogleSearchResponse outcome) \<Rightarrow> string option \<Rightarrow> string option \<Rightarrow>
   string option \<Rightarrow> string list option \<Rightarrow> int \<Rightarrow>
   exception + GoogleSearchResponse \<times> request list" where
  "searchCtoProfilesLimited_google backend region companySector companyType additionalTitles
       numResults =
     (case buildQuery region companySector companyType additionalTitles of
        Inl e \<Rightarrow> Inl e
      | Inr query \<Rightarrow> executeSearch_google (backend 0) query numResults)"

definition searchCtoProfiles_serpapi ::
  "(nat \<Rightarrow> SerpApiResponse outcome) \<Rightarrow> string option \<Rightarrow> string option \<Rightarrow>
   string option \<Rightarrow> string list option \<Rightarrow> bool \<Rightarrow> exception + SerpApiResponse \<times> request list" where
  "searchCtoProfiles_serpapi backend region companySector companyType additionalTitles
       getAllPages =
     (case buildQuery region companySector companyType additionalTitles of
        Inl e \<Rightarrow> Inl e
      | Inr query \<Rightarrow>
          if getAllPages then executeSearchAllPages_serpapi backend query
          else executeSearch_serpapi (backend 0) query 10)"

section \<open>Vocabulary of the properties\<close>

text \<open>
  The definitions of this section are not code of the repository. They name what the
  properties below speak about: raw items as triples, the clauses of a query, what a
  fetch delivers, and a few test backends.
\<close>

subsection \<open>Raw items\<close>

text \<open>
  A raw item is a triple (title, link, snippet); \<^verbatim>\<open>google_of_raw\<close> and \<^verbatim>\<open>serp_of_raw\<close>
  put the same triple into the item type of either backend.
\<close>

definition google_of_raw :: "string \<times> string \<times> string \<Rightarrow> GoogleSearchItem" where
  "google_of_raw = (\<lambda>(t, l, s). \<lparr>item_title = t, item_link = l, item_snippet = s\<rparr>)"

definition serp_of_raw :: "string \<times> string \<times> string \<Rightarrow> SerpApiSearchItem" where
  "serp_of_raw = (\<lambda>(t, l, s). \<lparr>serp_title = t, serp_link = l, serp_snippet = s\<rparr>)"

subsection \<open>The clauses of a query\<close>

text \<open>
  The query in the words of the specification: a list of clauses in the fixed order
  namespace, titles, region, sector, type, exclusions, where an absent filter
  contributes no clause. \<^verbatim>\<open>inheritedKey\<close> holds for a present filter whose lower-cased
  value is no key of the table but the name of a property of \<^verbatim>\<open>Object.prototype\<close>.
\<close>

definition regionClause :: "string option \<Rightarrow> string list" where
  "regionClause region = (case present region of None \<Rightarrow> [] | Some r \<Rightarrow> [quoted r])"

definition keywordClause :: "(string \<times> string list) list \<Rightarrow> string option \<Rightarrow> string list" where
  "keywordClause keywords v =
     (case present v of
        None \<Rightarrow> []
      | Some x \<Rightarrow>
          (case map_of keywords (toLowerCase x) of
             Some ts \<Rightarrow> [''('' @ join '' OR '' (map quoted ts) @ '')'']
           | None \<Rightarrow> [''('' @ quoted x @ '')'']))"

definition titleClause :: "string list option \<Rightarrow> string" where
  "titleClause additionalTitles =
     ''('' @ join '' OR ''
              (map quoted (queryTitles @ (case additionalTitles of
                                            None \<Rightarrow> []
                                          | Some extra \<Rightarrow> extra)))
          @ '')''"

definition exclusionClauses :: "string list" where
  "exclusionClauses = map (\<lambda>exclude. ''-'' @ quoted exclude) excludes"

definition inheritedKey :: "(string \<times> string list) list \<Rightarrow> string option \<Rightarrow> bool" where
  "inheritedKey keywords v =
     (case present v of
        None \<Rightarrow> False
      | Some x \<Rightarrow>
          map_of keywords (toLowerCase x) = None \<and>
          toLowerCase x \<in> set objectPrototypeKeys)"

subsection \<open>Pages and test backends\<close>

text \<open>
  \<^verbatim>\<open>failed\<close> holds for a fetch that is rejected or answers with a status that is not
  ok; \<^verbatim>\<open>google_page\<close> and \<^verbatim>\<open>serpapi_page\<close> give the items that a fetch delivers (none
  when it fails or when the body has no list). The test backends answer every fetch
  with copies of one sample item: pages of sizes 10, 10, 10, 7 and empty pages after
  them; pages of 11 items; pages of 10 items; and two pages of 10 items followed by
  failures.
\<close>

definition failed :: "'r outcome \<Rightarrow> bool" where
  "failed fetched = (case fetched of Http_Ok body \<Rightarrow> False | _ \<Rightarrow> True)"

definition google_page :: "GoogleSearchResponse outcome \<Rightarrow> GoogleSearchItem list" where
  "google_page fetched =
     (case fetched of
        Http_Ok body \<Rightarrow> (case items body of Some page \<Rightarrow> page | None \<Rightarrow> [])
      | _ \<Rightarrow> [])"

definition serpapi_page :: "SerpApiResponse outcome \<Rightarrow> SerpApiSearchItem list" where
  "serpapi_page fetched =
     (case fetched of
        Http_Ok body \<Rightarrow> (case organic_results body of Some results \<Rightarrow> results | None \<Rightarrow> [])
      | _ \<Rightarrow> [])"

definition google_sample :: GoogleSearchItem where
  "google_sample = \<lparr>item_title = ''Jane Doe - CTO'',
     item_link = ''https://www.linkedin.com/in/jane-doe'', item_snippet = ''CTO at Acme''\<rparr>"

definition serpapi_sample :: SerpApiSearchItem where
  "serpapi_sample = \<lparr>serp_title = ''Jane Doe - CTO'',
     serp_link = ''https://www.linkedin.com/in/jane-doe'', serp_snippet = ''CTO at Acme''\<rparr>"

definition google_backend_37 :: "nat \<Rightarrow> GoogleSearchResponse outcome" where
  "google_backend_37 k =
     Http_Ok \<lparr>items = Some (replicate (if k < 3 then 10 else if k = 3 then 7 else 0)
                               google_sample)\<rparr>"

definition serpapi_backend_37 :: "nat \<Rightarrow> SerpApiResponse outcome" where
  "serpapi_backend_37 k =
     Http_Ok \<lparr>organic_results = Some (replicate (if k < 3 then 10 else if k = 3 then 7 else 0)
                                         serpapi_sample)\<rparr>"

definition google_backend_oversized :: "nat \<Rightarrow> GoogleSearchResponse outcome" where
  "google_backend_oversized k = Http_Ok \<lparr>items = Some (replicate 11 google_sample)\<rparr>"

definition google_backend_full :: "nat \<Rightarrow> GoogleSearchResponse outcome" where
  "google_backend_full k = Http_Ok \<lparr>items = Some (replicate 10 google_sample)\<rparr>"

definition google_backend_fails_third :: "nat \<Rightarrow> GoogleSearchResponse outcome" where
  "google_backend_fails_third k =
     (if k < 2 then Http_Ok \<lparr>items = Some (replicate 10 google_sample)\<rparr> else Http_NotOk)"

section \<open>Properties of the profile extractor\<close>

subsection \<open>The loops as filters\<close>

lemma extractProfiles_loop_alternate_eq:
  "extractProfiles_loop_alternate its searchContext profiles =
     profiles @ filter validateProfile_alternate
       (List.map_filter (\<lambda>item. parseSearchItem_alternate item searchContext) its)"
  by (induction its arbitrary: profiles) (auto split: option.splits)

lemma extractProfiles_loop_primary_eq:
  "extractProfiles_loop_primary its searchContext profiles =
     profiles @ filter validateProfile_primary
       (List.map_filter (\<lambda>item. parseSearchItem_primary item searchContext) its)"
  by (induction its arbitrary: profiles) (auto split: option.splits)

lemma extractProfilesFromSerpApi_loop_alternate_eq:
  "extractProfilesFromSerpApi_loop_alternate rs searchContext profiles =
     profiles @ filter validateProfile_alternate
       (List.map_filter (\<lambda>item. parseSearchItem_alternate item searchContext)
          (map googleItem rs))"
  by (induction rs arbitrary: profiles) (auto split: option.splits)

lemma extractProfilesFromSerpApi_loop_primary_eq:
  "extractProfilesFromSerpApi_loop_primary rs searchContext profiles =
     profiles @ filter validateProfile_primary
       (List.map_filter (\<lambda>item. parseSearchItem_primary item searchContext)
          (map googleItem rs))"
  by (induction rs arbitrary: profiles) (auto split: option.splits)

lemma map_filter_SomeD:
  "p \<in> set (List.map_filter f xs) \<Longrightarrow> \<exists>x \<in> set xs. f x = Some p"
  by (induction xs) (auto split: option.splits)

subsection \<open>Score bounds\<close>

lemma calculateConfidence_primary_bounds:
  "0 \<le> calculateConfidence_primary jobTitle company searchContext snippet \<and>
   calculateConfidence_primary jobTitle company searchContext snippet \<le> 100"
  by (simp add: calculateConfidence_primary_def Let_def)

lemma calculateConfidence_alternate_bounds:
  "0 \<le> calculateConfidence_alternate jobTitle company searchContext snippet \<and>
   calculateConfidence_alternate jobTitle company searchContext snippet \<le> 100"
  by (simp add: calculateConfidence_alternate_def Let_def)

lemma parseSearchItem_primary_score:
  "parseSearchItem_primary item searchContext = Some p \<Longrightarrow>
   0 \<le> confidence_score p \<and> confidence_score p \<le> 100"
  using calculateConfidence_primary_bounds
  by (auto simp: parseSearchItem_primary_def Let_def split: if_splits prod.splits)

lemma parseSearchItem_alternate_score:
  "parseSearchItem_alternate item searchContext = Some p \<Longrightarrow>
   0 \<le> confidence_score p \<and> confidence_score p \<le> 100"
  using calculateConfidence_alternate_bounds
  by (auto simp: parseSearchItem_alternate_def Let_def split: if_splits prod.splits)

text \<open>
  Claim C1. Whatever the job title, the company, the search context and the snippet are
  (so in particular for the job title and company extracted from any raw item), the
  score of the primary formula and the score of the alternate formula lie between 0 and
  100, both included.
\<close>

theorem confidence_score_bounds:
  "0 \<le> calculateConfidence_primary jobTitle company searchContext snippet \<and>
   calculateConfidence_primary jobTitle company searchContext snippet \<le> 100 \<and>
   0 \<le> calculateConfidence_alternate jobTitle company searchContext snippet \<and>
   calculateConfidence_alternate jobTitle company searchContext snippet \<le> 100"
  using calculateConfidence_primary_bounds calculateConfidence_alternate_bounds by blast

subsection \<open>URL gating\<close>

lemma jane_doe_matches:
  "test linkedinUrlPattern ''https://www.linkedin.com/in/jane-doe''"
  by code_simp

lemma upper_case_host_fails:
  "\<not> test linkedinUrlPattern ''HTTPS://WWW.LINKEDIN.COM/in/jane-doe''"
  by code_simp

lemma example_com_fails:
  "\<not> test linkedinUrlPattern ''https://example.com/not-a-profile''"
  by code_simp

lemma parseSearchItem_alternate_None:
  "(parseSearchItem_alternate item searchContext = None) = (\<not> test linkedinUrlPattern (item_link item))"
  by (simp add: parseSearchItem_alternate_def Let_def split: prod.splits)

lemma parseSearchItem_alternate_url:
  "parseSearchItem_alternate item searchContext = Some p \<Longrightarrow>
   linkedin_url p = item_link item \<and> test linkedinUrlPattern (linkedin_url p)"
  by (auto simp: parseSearchItem_alternate_def Let_def split: if_splits prod.splits)

lemma parseSearchItem_alternate_sources:
  "parseSearchItem_alternate item searchContext = Some p \<Longrightarrow>
   profile_sources p = [''Google Custom Search'']"
  by (auto simp: parseSearchItem_alternate_def Let_def split: if_splits prod.splits)

text \<open>
  Claim C7, as amended. \<^verbatim>\<open>parseSearchItem\<close> gives no profile exactly when the link of
  the item fails the pattern; a profile it gives carries the link of the item, which
  matches the pattern; so does every profile returned by either extraction entry point.
  The link \<^verbatim>\<open>https://example.com/not-a-profile\<close> gives no profile and the link
  \<^verbatim>\<open>https://www.linkedin.com/in/jane-doe\<close> gives one, whatever the title, the snippet
  and the context are. The pattern is case-sensitive: the same link with scheme and
  host in upper case gives no profile.
\<close>

theorem url_gating:
  "(parseSearchItem_alternate item searchContext = None) =
     (\<not> test linkedinUrlPattern (item_link item)) \<and>
   (\<forall>p. parseSearchItem_alternate item searchContext = Some p \<longrightarrow>
        linkedin_url p = item_link item \<and> test linkedinUrlPattern (linkedin_url p)) \<and>
   (\<forall>p \<in> set (extractProfiles_alternate searchResponse searchContext).
        test linkedinUrlPattern (linkedin_url p)) \<and>
   (\<forall>p \<in> set (extractProfilesFromSerpApi_alternate serpResponse searchContext).
        test linkedinUrlPattern (linkedin_url p)) \<and>
   (item_link item = ''https://example.com/not-a-profile'' \<longrightarrow>
        parseSearchItem_alternate item searchContext = None) \<and>
   (item_link item = ''https://www.linkedin.com/in/jane-doe'' \<longrightarrow>
        (\<exists>p. parseSearchItem_alternate item searchContext = Some p)) \<and>
   (item_link item = ''HTTPS://WWW.LINKEDIN.COM/in/jane-doe'' \<longrightarrow>
        parseSearchItem_alternate item searchContext = None)"
proof -
  have a: "\<forall>p \<in> set (extractProfiles_alternate searchResponse searchContext).
             test linkedinUrlPattern (linkedin_url p)"
    by (auto simp: extractProfiles_alternate_def extractProfiles_loop_alternate_eq
          split: option.splits dest!: map_filter_SomeD parseSearchItem_alternate_url)
  have b: "\<forall>p \<in> set (extractProfilesFromSerpApi_alternate serpResponse searchContext).
             test linkedinUrlPattern (linkedin_url p)"
    by (auto simp: extractProfilesFromSerpApi_alternate_def
          extractProfilesFromSerpApi_loop_alternate_eq
          split: option.splits dest!: map_filter_SomeD parseSearchItem_alternate_url)
  have c: "item_link item = ''https://www.linkedin.com/in/jane-doe'' \<longrightarrow>
        (\<exists>p. parseSearchItem_alternate item searchContext = Some p)"
    using jane_doe_matches parseSearchItem_alternate_None [of item searchContext] by auto
  show ?thesis
    using a b c parseSearchItem_alternate_url [of item searchContext]
      example_com_fails upper_case_host_fails
    by (auto simp: parseSearchItem_alternate_None)
qed

text \<open>The amended claim C7 at an item with the link of Jane Doe.\<close>

theorem url_gating_witness:
  "(\<exists>p. parseSearchItem_alternate
          \<lparr>item_title = ''Jane Doe - CTO'',
           item_link = ''https://www.linkedin.com/in/jane-doe'',
           item_snippet = ''CTO at Acme''\<rparr> [] = Some p) \<and>
   test linkedinUrlPattern ''https://www.linkedin.com/in/jane-doe''"
  using url_gating [of "\<lparr>item_title = ''Jane Doe - CTO'',
           item_link = ''https://www.linkedin.com/in/jane-doe'',
           item_snippet = ''CTO at Acme''\<rparr>" "[]"] jane_doe_matches
  by simp

text \<open>
  Claim C7 as stated fails: with scheme and host in upper case the link of Jane Doe
  yields no profile.
\<close>

theorem url_gating_counterexample:
  "parseSearchItem_alternate
     \<lparr>item_title = ''Jane Doe - CTO'', item_link = ''HTTPS://WWW.LINKEDIN.COM/in/jane-doe'',
      item_snippet = ''CTO at Acme''\<rparr> [] = None"
  using upper_case_host_fails by (simp add: parseSearchItem_alternate_None)

subsection \<open>The validity threshold\<close>

lemma validateProfile_primary_iff:
  "validateProfile_primary p =
     (length (profile_name p) \<ge> 2 \<and> linkedin_url p \<noteq> [] \<and> confidence_score p \<ge> 20)"
  by (auto simp: validateProfile_primary_def)

lemma validateProfile_alternate_iff:
  "validateProfile_alternate p =
     (profile_name p \<noteq> [] \<and> linkedin_url p \<noteq> [] \<and> confidence_score p > 10)"
  by (auto simp: validateProfile_alternate_def)

text \<open>
  Claim C8, as amended. The filter of \<^verbatim>\<open>src/index.ts\<close> retains a profile exactly when
  its name has at least 2 characters, its URL is not empty and its score is at least 20:
  with such a name and URL a score of exactly 20 is retained, and a score of 19.99 is
  dropped whatever the name and URL are. The filter of the search-services module
  retains a profile exactly when its name is not empty (one character is enough), its
  URL is not empty and its score is greater than 10.
\<close>

theorem validity_threshold:
  "validateProfile_primary p =
     (length (profile_name p) \<ge> 2 \<and> linkedin_url p \<noteq> [] \<and> confidence_score p \<ge> 20) \<and>
   validateProfile_primary (p\<lparr>confidence_score := 20\<rparr>) =
     (length (profile_name p) \<ge> 2 \<and> linkedin_url p \<noteq> []) \<and>
   \<not> validateProfile_primary (p\<lparr>confidence_score := 19.99\<rparr>) \<and>
   validateProfile_alternate p =
     (profile_name p \<noteq> [] \<and> linkedin_url p \<noteq> [] \<and> confidence_score p > 10)"
  by (auto simp: validateProfile_primary_def validateProfile_alternate_def)

text \<open>The amended claim C8 at a profile that scores 20, and at the same profile with 19.99.\<close>

theorem validity_threshold_witness:
  "validateProfile_primary
     \<lparr>profile_name = ''Jane Doe'', profile_title = ''Cto'', profile_company = ''Acme'',
      linkedin_url = ''https://www.linkedin.com/in/jane-doe'', profile_snippet = ''CTO at Acme'',
      confidence_score = 20, profile_location = None,
      profile_sources = [''Google Custom Search'']\<rparr> \<and>
   \<not> validateProfile_primary
     \<lparr>profile_name = ''Jane Doe'', profile_title = ''Cto'', profile_company = ''Acme'',
      linkedin_url = ''https://www.linkedin.com/in/jane-doe'', profile_snippet = ''CTO at Acme'',
      confidence_score = 19.99, profile_location = None,
      profile_sources = [''Google Custom Search'']\<rparr>"
  using validity_threshold [of "\<lparr>profile_name = ''Jane Doe'', profile_title = ''Cto'',
      profile_company = ''Acme'', linkedin_url = ''https://www.linkedin.com/in/jane-doe'',
      profile_snippet = ''CTO at Acme'', confidence_score = 20, profile_location = None,
      profile_sources = [''Google Custom Search'']\<rparr>"]
  by simp

text \<open>
  Claim C8 as stated fails: the filter of the search-services module retains a profile
  whose name has one character.
\<close>

theorem validity_threshold_counterexample:
  "validateProfile_alternate
     \<lparr>profile_name = ''A'', profile_title = ''Cto'', profile_company = ''Acme'',
      linkedin_url = ''https://www.linkedin.com/in/a'', profile_snippet = ''CTO at Acme'',
      confidence_score = 90, profile_location = None,
      profile_sources = [''Google Custom Search'']\<rparr> \<and>
   length ''A'' < (2 :: nat)"
  by (simp add: validateProfile_alternate_def)

subsection \<open>The two extraction entry points\<close>

lemma googleItem_serp_of_raw: "googleItem (serp_of_raw x) = google_of_raw x"
  by (cases x) (simp add: googleItem_def serp_of_raw_def google_of_raw_def)

lemma extractProfiles_alternate_sources:
  "p \<in> set (extractProfiles_alternate searchResponse searchContext) \<Longrightarrow>
   profile_sources p = [''Google Custom Search'']"
  by (auto simp: extractProfiles_alternate_def extractProfiles_loop_alternate_eq
        split: option.splits dest!: map_filter_SomeD parseSearchItem_alternate_sources)

lemma jane_doe_profile:
  "extractProfiles_alternate
     \<lparr>items = Some [\<lparr>item_title = ''Jane Doe - CTO'',
                      item_link = ''https://www.linkedin.com/in/jane-doe'',
                      item_snippet = ''CTO at Acme''\<rparr>]\<rparr> [] =
   [\<lparr>profile_name = ''Jane Doe'', profile_title = ''Cto'', profile_company = ''Acme'',
     linkedin_url = ''https://www.linkedin.com/in/jane-doe'',
     profile_snippet = ''CTO at Acme'', confidence_score = 90, profile_location = None,
     profile_sources = [''Google Custom Search'']\<rparr>]"
  by code_simp

text \<open>
  Claim C10. For every list of raw items, absent or present, and every search context,
  \<^verbatim>\<open>extractProfilesFromSerpApi\<close> on a response that carries the list in
  \<^verbatim>\<open>organic_results\<close> returns the same profiles as \<^verbatim>\<open>extractProfiles\<close> on a response
  that carries it in \<^verbatim>\<open>items\<close>; every profile returned carries the sources label
  \<^verbatim>\<open>Google Custom Search\<close>; and an absent list gives no profile on either path.
\<close>

theorem extraction_paths_agree:
  "extractProfilesFromSerpApi_alternate
       \<lparr>organic_results = map_option (map serp_of_raw) raw\<rparr> searchContext =
     extractProfiles_alternate \<lparr>items = map_option (map google_of_raw) raw\<rparr> searchContext \<and>
   (\<forall>p \<in> set (extractProfiles_alternate \<lparr>items = map_option (map google_of_raw) raw\<rparr>
                   searchContext).
      profile_sources p = [''Google Custom Search'']) \<and>
   extractProfiles_alternate \<lparr>items = None\<rparr> searchContext = [] \<and>
   extractProfilesFromSerpApi_alternate \<lparr>organic_results = None\<rparr> searchContext = []"
proof -
  have copy: "googleItem \<circ> serp_of_raw = google_of_raw"
    by (rule ext) (simp add: googleItem_serp_of_raw)
  have same: "extractProfilesFromSerpApi_alternate
       \<lparr>organic_results = map_option (map serp_of_raw) raw\<rparr> searchContext =
     extractProfiles_alternate \<lparr>items = map_option (map google_of_raw) raw\<rparr> searchContext"
    by (cases raw)
       (simp_all add: extractProfilesFromSerpApi_alternate_def extractProfiles_alternate_def
          extractProfilesFromSerpApi_loop_alternate_eq extractProfiles_loop_alternate_eq copy)
  have label: "\<forall>p \<in> set (extractProfiles_alternate
                   \<lparr>items = map_option (map google_of_raw) raw\<rparr> searchContext).
      profile_sources p = [''Google Custom Search'']"
    using extractProfiles_alternate_sources by blast
  have absent: "extractProfiles_alternate \<lparr>items = None\<rparr> searchContext = []"
    "extractProfilesFromSerpApi_alternate \<lparr>organic_results = None\<rparr> searchContext = []"
    by (simp_all add: extractProfiles_alternate_def extractProfilesFromSerpApi_alternate_def)
  show ?thesis
    using same label absent by blast
qed

text \<open>Claim C10 at a response with one item: both paths return the one profile.\<close>

theorem extraction_paths_agree_witness:
  "extractProfilesFromSerpApi_alternate
       \<lparr>organic_results = Some [\<lparr>serp_title = ''Jane Doe - CTO'',
                      serp_link = ''https://www.linkedin.com/in/jane-doe'',
                      serp_snippet = ''CTO at Acme''\<rparr>]\<rparr> [] =
   [\<lparr>profile_name = ''Jane Doe'', profile_title = ''Cto'', profile_company = ''Acme'',
     linkedin_url = ''https://www.linkedin.com/in/jane-doe'',
     profile_snippet = ''CTO at Acme'', confidence_score = 90, profile_location = None,
     profile_sources = [''Google Custom Search'']\<rparr>]"
  using extraction_paths_agree [of "Some [(''Jane Doe - CTO'',
      ''https://www.linkedin.com/in/jane-doe'', ''CTO at Acme'')]" "[]"] jane_doe_profile
  by (simp add: serp_of_raw_def google_of_raw_def)

section \<open>Properties of the query builder\<close>

lemma foldl_push: "foldl (\<lambda>queryParts exclude. queryParts @ [f exclude]) qp xs = qp @ map f xs"
  by (induction xs arbitrary: qp) auto

lemma pushKeywords_clause:
  "\<not> inheritedKey keywords v \<Longrightarrow>
   pushKeywords keywords v queryParts = Inr (queryParts @ keywordClause keywords v)"
  by (auto simp: pushKeywords_def keywordClause_def inheritedKey_def lookupTerms_def
        getProperty_def split: option.splits)

lemma pushKeywords_throws:
  "inheritedKey keywords v \<Longrightarrow> pushKeywords keywords v queryParts = Inl TypeError"
  by (auto simp: pushKeywords_def inheritedKey_def lookupTerms_def
        getProperty_def split: option.splits)

lemma buildQuery_clauses:
  assumes "\<not> inheritedKey sectorKeywords companySector"
    and "\<not> inheritedKey typeKeywords companyType"
  shows "buildQuery region companySector companyType additionalTitles =
     Inr (join '' '' ([''site:linkedin.com/in/'', titleClause additionalTitles]
            @ regionClause region @ keywordClause sectorKeywords companySector
            @ keywordClause typeKeywords companyType @ exclusionClauses))"
proof -
  have t: "(case additionalTitles of None \<Rightarrow> queryTitles | Some extra \<Rightarrow> queryTitles @ extra) =
     queryTitles @ (case additionalTitles of None \<Rightarrow> [] | Some extra \<Rightarrow> extra)"
    by (simp split: option.splits)
  have r: "(case present region of None \<Rightarrow> qp | Some r \<Rightarrow> qp @ [quoted r]) = qp @ regionClause region"
    for qp
    by (simp add: regionClause_def split: option.splits)
  show ?thesis
    unfolding buildQuery_def Let_def t r
    by (simp add: pushKeywords_clause [OF assms(1)] pushKeywords_clause [OF assms(2)]
          foldl_push exclusionClauses_def titleClause_def)
qed

lemma buildQuery_throws:
  "inheritedKey sectorKeywords companySector \<or> inheritedKey typeKeywords companyType \<Longrightarrow>
   buildQuery region companySector companyType additionalTitles = Inl TypeError"
  by (cases "inheritedKey sectorKeywords companySector")
     (auto simp: buildQuery_def Let_def pushKeywords_throws pushKeywords_clause)

text \<open>
  Claim C2 at the sector \<^verbatim>\<open>constructor\<close>. The claim says that query construction never
  throws. The lower-cased sector is no key of \<^verbatim>\<open>sectorKeywords\<close>, the lookup finds
  \<^verbatim>\<open>Object.prototype.constructor\<close>, and calling \<^verbatim>\<open>map\<close> on it throws a \<^verbatim>\<open>TypeError\<close>:
  no query is built and no search is made. The same holds for the company type. For
  every other input \<^verbatim>\<open>buildQuery_clauses\<close> shows the query that the claim describes.
\<close>

theorem query_construction_throws:
  "buildQuery None (Some ''constructor'') None None = Inl TypeError \<and>
   buildQuery None None (Some ''constructor'') None = Inl TypeError \<and>
   searchCtoProfiles_google backend None (Some ''constructor'') None None = Inl TypeError \<and>
   searchCtoProfiles_serpapi serp None (Some ''constructor'') None None getAllPages = Inl TypeError"
proof -
  have a: "buildQuery None (Some ''constructor'') None None = Inl TypeError"
    by code_simp
  have b: "buildQuery None None (Some ''constructor'') None = Inl TypeError"
    by code_simp
  show ?thesis
    by (simp add: a b searchCtoProfiles_google_def searchCtoProfiles_serpapi_def)
qed

text \<open>
  Claim C9 at the sectors \<^verbatim>\<open>AI/ML\<close> and \<^verbatim>\<open>IoT\<close> and at the type \<^verbatim>\<open>SME\<close>. The claim
  says that any casing of a known key maps to the synonyms of that key. The lookup key
  is lower-cased and these three keys of the tables are not, so even the exact key
  falls back to the literal value: the sector \<^verbatim>\<open>AI/ML\<close> gives the clause
  \<^verbatim>\<open>("AI/ML")\<close> although the table holds four synonyms for it.
\<close>

theorem upper_case_keys_unreachable:
  "lookupTerms sectorKeywords ''AI/ML'' = Terms [''AI/ML''] \<and>
   lookupTerms sectorKeywords ''IoT'' = Terms [''IoT''] \<and>
   lookupTerms typeKeywords ''SME'' = Terms [''SME''] \<and>
   map_of sectorKeywords ''AI/ML'' =
     Some [''AI'', ''ML'', ''artificial intelligence'', ''machine learning''] \<and>
   pushKeywords sectorKeywords (Some ''AI/ML'') [] = Inr [''('' @ quoted ''AI/ML'' @ '')'']"
  by code_simp

lemma lookupTerms_sector_lower_case_keys:
  "toLowerCase v = ''software'' \<Longrightarrow> lookupTerms sectorKeywords v = Terms [''software'', ''SaaS'', ''tech'', ''technology'']"
  "toLowerCase v = ''fintech'' \<Longrightarrow> lookupTerms sectorKeywords v = Terms [''fintech'', ''financial technology'', ''finance'', ''banking'']"
  "toLowerCase v = ''healthcare'' \<Longrightarrow> lookupTerms sectorKeywords v = Terms [''healthcare'', ''medical'', ''health tech'', ''biotech'']"
  "toLowerCase v = ''e-commerce'' \<Longrightarrow> lookupTerms sectorKeywords v = Terms [''e-commerce'', ''ecommerce'', ''retail'', ''online'']"
  "toLowerCase v = ''cybersecurity'' \<Longrightarrow> lookupTerms sectorKeywords v = Terms [''cybersecurity'', ''security'', ''infosec'']"
  "toLowerCase v = ''blockchain'' \<Longrightarrow> lookupTerms sectorKeywords v = Terms [''blockchain'', ''crypto'', ''web3'']"
  "toLowerCase v = ''gaming'' \<Longrightarrow> lookupTerms sectorKeywords v = Terms [''gaming'', ''game'', ''entertainment'']"
  by (simp_all add: lookupTerms_def getProperty_def sectorKeywords_def)

lemma lookupTerms_type_lower_case_keys:
  "toLowerCase v = ''startup'' \<Longrightarrow> lookupTerms typeKeywords v = Terms [''startup'', ''early stage'', ''seed'']"
  "toLowerCase v = ''enterprise'' \<Longrightarrow> lookupTerms typeKeywords v = Terms [''enterprise'', ''Fortune'', ''large company'']"
  "toLowerCase v = ''unicorn'' \<Longrightarrow> lookupTerms typeKeywords v = Terms [''unicorn'', ''billion'', ''$1B'']"
  "toLowerCase v = ''public'' \<Longrightarrow> lookupTerms typeKeywords v = Terms [''public company'', ''NYSE'', ''NASDAQ'', ''publicly traded'']"
  by (simp_all add: lookupTerms_def getProperty_def typeKeywords_def)

lemma toLowerCaseChar_not_upper: "\<not> isUpperChar (toLowerCaseChar c)"
  by (auto simp: toLowerCaseChar_def isUpperChar_def split: option.splits dest!: map_of_SomeD)

lemma lookupTerms_upper_case_key_dead:
  "list_ex isUpperChar k \<Longrightarrow> toLowerCase v \<noteq> k"
  by (auto simp: toLowerCase_def list_ex_iff toLowerCaseChar_not_upper)

section \<open>Properties of the page fetchers\<close>

declare executeSearchAllPages_google_loop.simps [simp del]
declare executeSearchAllPages_serpapi_loop.simps [simp del]

lemma upt_step: "n < m \<Longrightarrow> [n..<m] = n # [Suc n..<m]"
  by (simp add: upt_conv_Cons)

lemma google_loop_items:
  "executeSearchAllPages_google_loop backend query startIndex allItems sent = (its, sent') \<Longrightarrow>
   its = allItems @ concat (map (\<lambda>k. google_page (backend k)) [length sent..<length sent']) \<and>
   length sent < length sent'"
proof (induction backend query startIndex allItems sent arbitrary: its sent'
       rule: executeSearchAllPages_google_loop.induct)
  case (1 backend query startIndex allItems sent)
  show ?case
  proof (cases "backend (length sent)")
    case Rejected
    with "1.prems" show ?thesis
      by (subst (asm) executeSearchAllPages_google_loop.simps)
         (auto simp: Let_def google_page_def)
  next
    case Http_NotOk
    with "1.prems" show ?thesis
      by (subst (asm) executeSearchAllPages_google_loop.simps)
         (auto simp: Let_def google_page_def)
  next
    case (Http_Ok body)
    show ?thesis
    proof (cases "items body")
      case None
      with Http_Ok "1.prems" show ?thesis
        by (subst (asm) executeSearchAllPages_google_loop.simps)
           (auto simp: Let_def google_page_def)
    next
      case (Some page)
      have pg: "google_page (backend (length sent)) = page"
        using Http_Ok Some by (simp add: google_page_def)
      show ?thesis
      proof (cases "0 < length page \<and> \<not> length page < maxResults \<and>
                    \<not> startIndex + maxResults > 100")
        case False
        with Http_Ok Some "1.prems" show ?thesis
          by (subst (asm) executeSearchAllPages_google_loop.simps)
             (auto simp: Let_def google_page_def split: if_splits)
      next
        case True
        let ?sent = "sent @ [\<lparr>req_q = query, req_num = int maxResults,
                              req_start = Some startIndex\<rparr>]"
        from True Http_Ok Some "1.prems"
        have rec: "executeSearchAllPages_google_loop backend query (startIndex + maxResults)
                     (allItems @ page) ?sent = (its, sent')"
          by (subst (asm) executeSearchAllPages_google_loop.simps) (simp add: Let_def)
        from True have "length page > 0" "\<not> length page < maxResults"
          "\<not> startIndex + maxResults > 100" by simp_all
        from "1.IH" [OF refl Http_Ok Some this rec]
        have ih: "its = (allItems @ page) @
                    concat (map (\<lambda>k. google_page (backend k)) [length ?sent..<length sent'])"
          and lt: "length ?sent < length sent'" by simp_all
        from lt have "length sent < length sent'" by simp
        then show ?thesis
          using ih pg by (simp add: upt_step)
      qed
    qed
  qed
qed


lemma google_loop_fetches:
  "executeSearchAllPages_google_loop backend query startIndex allItems sent = (its, sent') \<Longrightarrow>
   length sent' \<le> length sent + 1 + (100 - startIndex) div 10"
proof (induction backend query startIndex allItems sent arbitrary: its sent'
       rule: executeSearchAllPages_google_loop.induct)
  case (1 backend query startIndex allItems sent)
  show ?case
  proof (cases "\<exists>body page. backend (length sent) = Http_Ok body \<and> items body = Some page \<and>
                  0 < length page \<and> \<not> length page < maxResults \<and>
                  \<not> startIndex + maxResults > 100")
    case False
    with "1.prems" show ?thesis
      by (subst (asm) executeSearchAllPages_google_loop.simps)
         (auto simp: Let_def split: outcome.splits option.splits if_splits)
  next
    case True
    then obtain body page where b: "backend (length sent) = Http_Ok body"
      and p: "items body = Some page" and c: "0 < length page" "\<not> length page < maxResults"
        "\<not> startIndex + maxResults > 100" by blast
    let ?sent = "sent @ [\<lparr>req_q = query, req_num = int maxResults,
                          req_start = Some startIndex\<rparr>]"
    from b p c "1.prems"
    have rec: "executeSearchAllPages_google_loop backend query (startIndex + maxResults)
                 (allItems @ page) ?sent = (its, sent')"
      by (subst (asm) executeSearchAllPages_google_loop.simps) (simp add: Let_def)
    from "1.IH" [OF refl b p c rec]
    have "length sent' \<le> length ?sent + 1 + (100 - (startIndex + maxResults)) div 10" .
    with c(3) show ?thesis
      by (simp add: maxResults_def)
  qed
qed

lemma google_loop_fetches_full:
  "\<forall>k. length (google_page (backend k)) = 10 \<Longrightarrow>
   executeSearchAllPages_google_loop backend query startIndex allItems sent = (its, sent') \<Longrightarrow>
   length sent' = length sent + 1 + (100 - startIndex) div 10"
proof (induction backend query startIndex allItems sent arbitrary: its sent'
       rule: executeSearchAllPages_google_loop.induct)
  case (1 backend query startIndex allItems sent)
  from "1.prems"(1) have "length (google_page (backend (length sent))) = 10" by blast
  then obtain body page where b: "backend (length sent) = Http_Ok body"
    and p: "items body = Some page" and l: "length page = 10"
    by (auto simp: google_page_def split: outcome.splits option.splits)
  show ?case
  proof (cases "startIndex + maxResults > 100")
    case True
    with b p l "1.prems"(2) show ?thesis
      by (subst (asm) executeSearchAllPages_google_loop.simps)
         (auto simp: Let_def maxResults_def)
  next
    case False
    let ?sent = "sent @ [\<lparr>req_q = query, req_num = int maxResults,
                          req_start = Some startIndex\<rparr>]"
    from l have c: "0 < length page" "\<not> length page < maxResults"
      by (simp_all add: maxResults_def)
    from b p c False "1.prems"(2)
    have rec: "executeSearchAllPages_google_loop backend query (startIndex + maxResults)
                 (allItems @ page) ?sent = (its, sent')"
      by (subst (asm) executeSearchAllPages_google_loop.simps) (simp add: Let_def)
    from "1.IH" [OF refl b p c False "1.prems"(1) rec]
    have "length sent' = length ?sent + 1 + (100 - (startIndex + maxResults)) div 10" .
    with False show ?thesis
      by (simp add: maxResults_def)
  qed
qed

lemma serpapi_loop_items:
  "executeSearchAllPages_serpapi_loop backend query page allResults sent = (rs, sent') \<Longrightarrow>
   rs = allResults @ concat (map (\<lambda>k. serpapi_page (backend k)) [length sent..<length sent']) \<and>
   length sent \<le> length sent'"
proof (induction backend query page allResults sent arbitrary: rs sent'
       rule: executeSearchAllPages_serpapi_loop.induct)
  case (1 backend query page allResults sent)
  show ?case
  proof (cases "page < 10 \<and> (\<exists>body results. backend (length sent) = Http_Ok body \<and>
                  organic_results body = Some results \<and> length results \<noteq> 0)")
    case False
    with "1.prems" show ?thesis
      by (subst (asm) executeSearchAllPages_serpapi_loop.simps)
         (auto simp: Let_def serpapi_page_def split: outcome.splits option.splits if_splits)
  next
    case True
    then obtain body results where pg: "page < 10" and b: "backend (length sent) = Http_Ok body"
      and r: "organic_results body = Some results" and c: "length results \<noteq> 0" by blast
    let ?sent = "sent @ [\<lparr>req_q = query, req_num = 10, req_start = Some (page * 10)\<rparr>]"
    from pg b r c "1.prems"
    have rec: "executeSearchAllPages_serpapi_loop backend query (page + 1)
                 (allResults @ results) ?sent = (rs, sent')"
      by (subst (asm) executeSearchAllPages_serpapi_loop.simps) (simp add: Let_def)
    from "1.IH" [OF pg refl refl b r c rec]
    have ih: "rs = (allResults @ results) @
                concat (map (\<lambda>k. serpapi_page (backend k)) [length ?sent..<length sent'])"
      and le: "length ?sent \<le> length sent'" by simp_all
    have "serpapi_page (backend (length sent)) = results"
      using b r by (simp add: serpapi_page_def)
    moreover from le have "length sent < length sent'" by simp
    ultimately show ?thesis
      using ih by (simp add: upt_step)
  qed
qed

lemma serpapi_loop_fetches:
  "executeSearchAllPages_serpapi_loop backend query page allResults sent = (rs, sent') \<Longrightarrow>
   length sent' \<le> length sent + (10 - page)"
proof (induction backend query page allResults sent arbitrary: rs sent'
       rule: executeSearchAllPages_serpapi_loop.induct)
  case (1 backend query page allResults sent)
  show ?case
  proof (cases "page < 10 \<and> (\<exists>body results. backend (length sent) = Http_Ok body \<and>
                  organic_results body = Some results \<and> length results \<noteq> 0)")
    case False
    with "1.prems" show ?thesis
      by (subst (asm) executeSearchAllPages_serpapi_loop.simps)
         (auto simp: Let_def split: outcome.splits option.splits if_splits)
  next
    case True
    then obtain body results where pg: "page < 10" and b: "backend (length sent) = Http_Ok body"
      and r: "organic_results body = Some results" and c: "length results \<noteq> 0" by blast
    let ?sent = "sent @ [\<lparr>req_q = query, req_num = 10, req_start = Some (page * 10)\<rparr>]"
    from pg b r c "1.prems"
    have rec: "executeSearchAllPages_serpapi_loop backend query (page + 1)
                 (allResults @ results) ?sent = (rs, sent')"
      by (subst (asm) executeSearchAllPages_serpapi_loop.simps) (simp add: Let_def)
    from "1.IH" [OF pg refl refl b r c rec]
    have "length sent' \<le> length ?sent + (10 - (page + 1))" .
    with pg show ?thesis by simp
  qed
qed

lemma length_concat_pages:
  "\<forall>k. length (f k) \<le> n \<Longrightarrow> length (concat (map f ks)) \<le> n * length ks"
  by (induction ks) (auto intro: add_mono)

lemma length_concat_full_pages:
  "\<forall>k. length (f k) = n \<Longrightarrow> length (concat (map f ks)) = n * length ks"
  by (induction ks) auto


lemma google_loop_unroll:
  assumes "\<forall>j<n. \<exists>page. backend (length sent + j) = Http_Ok \<lparr>items = Some page\<rparr> \<and>
             10 \<le> length page"
    and "startIndex + 10 * n \<le> 100"
  shows "executeSearchAllPages_google_loop backend query startIndex allItems sent =
     executeSearchAllPages_google_loop backend query (startIndex + 10 * n)
       (allItems @ concat (map (\<lambda>j. google_page (backend j)) [length sent..<length sent + n]))
       (sent @ map (\<lambda>j. \<lparr>req_q = query, req_num = 10, req_start = Some (startIndex + 10 * j)\<rparr>)
                 [0..<n])"
  using assms
proof (induction n)
  case 0
  then show ?case by simp
next
  case (Suc n)
  from Suc.prems(1) obtain page where
    b: "backend (length sent + n) = Http_Ok \<lparr>items = Some page\<rparr>" and l: "10 \<le> length page"
    by auto
  have pg: "google_page (backend (length sent + n)) = page"
    using b by (simp add: google_page_def)
  from Suc.prems have ih: "executeSearchAllPages_google_loop backend query startIndex allItems sent =
     executeSearchAllPages_google_loop backend query (startIndex + 10 * n)
       (allItems @ concat (map (\<lambda>j. google_page (backend j)) [length sent..<length sent + n]))
       (sent @ map (\<lambda>j. \<lparr>req_q = query, req_num = 10, req_start = Some (startIndex + 10 * j)\<rparr>)
                 [0..<n])"
    by (intro Suc.IH) auto
  from l have ne: "page \<noteq> []" by auto
  show ?case
    unfolding ih
    using b l ne pg Suc.prems(2)
    by (subst executeSearchAllPages_google_loop.simps)
       (simp add: Let_def maxResults_def add.commute add.left_commute)
qed

lemma google_run_until_failure:
  assumes "k < 10"
    and "\<forall>j<k. \<exists>page. backend j = Http_Ok \<lparr>items = Some page\<rparr> \<and> 10 \<le> length page"
    and "failed (backend k)"
  shows "executeSearchAllPages_google backend query =
     Inr (\<lparr>items = Some (concat (map (\<lambda>j. google_page (backend j)) [0..<k]))\<rparr>,
          map (\<lambda>j. \<lparr>req_q = query, req_num = 10, req_start = Some (1 + 10 * j)\<rparr>) [0..<Suc k])"
proof -
  from assms(1) have le: "1 + 10 * k \<le> 100" by simp
  have u: "executeSearchAllPages_google_loop backend query 1 [] [] =
     executeSearchAllPages_google_loop backend query (1 + 10 * k)
       ([] @ concat (map (\<lambda>j. google_page (backend j)) [length ([] :: request list)..<
           length ([] :: request list) + k]))
       ([] @ map (\<lambda>j. \<lparr>req_q = query, req_num = 10, req_start = Some (1 + 10 * j)\<rparr>) [0..<k])"
    by (rule google_loop_unroll) (use assms(2) le in auto)
  from assms(3) have f: "backend k = Rejected \<or> backend k = Http_NotOk"
    by (simp add: failed_def split: outcome.splits)
  show ?thesis
    unfolding executeSearchAllPages_google_def u
    using f
    by (subst executeSearchAllPages_google_loop.simps)
       (auto simp: Let_def maxResults_def)
qed

lemma serpapi_loop_unroll:
  assumes "\<forall>j<n. \<exists>results. backend (length sent + j) = Http_Ok \<lparr>organic_results = Some results\<rparr> \<and>
             results \<noteq> []"
    and "page + n \<le> 10"
  shows "executeSearchAllPages_serpapi_loop backend query page allResults sent =
     executeSearchAllPages_serpapi_loop backend query (page + n)
       (allResults @ concat (map (\<lambda>j. serpapi_page (backend j)) [length sent..<length sent + n]))
       (sent @ map (\<lambda>j. \<lparr>req_q = query, req_num = 10, req_start = Some ((page + j) * 10)\<rparr>)
                 [0..<n])"
  using assms
proof (induction n)
  case 0
  then show ?case by simp
next
  case (Suc n)
  from Suc.prems(1) obtain results where
    b: "backend (length sent + n) = Http_Ok \<lparr>organic_results = Some results\<rparr>"
    and l: "results \<noteq> []"
    by auto
  have pg: "serpapi_page (backend (length sent + n)) = results"
    using b by (simp add: serpapi_page_def)
  from Suc.prems have ih: "executeSearchAllPages_serpapi_loop backend query page allResults sent =
     executeSearchAllPages_serpapi_loop backend query (page + n)
       (allResults @ concat (map (\<lambda>j. serpapi_page (backend j)) [length sent..<length sent + n]))
       (sent @ map (\<lambda>j. \<lparr>req_q = query, req_num = 10, req_start = Some ((page + j) * 10)\<rparr>)
                 [0..<n])"
    by (intro Suc.IH) auto
  show ?case
    unfolding ih
    using b l pg Suc.prems(2)
    by (subst executeSearchAllPages_serpapi_loop.simps)
       (simp add: Let_def add.commute add.left_commute)
qed

lemma serpapi_run_until_failure:
  assumes "k < 10"
    and "\<forall>j<k. \<exists>results. backend j = Http_Ok \<lparr>organic_results = Some results\<rparr> \<and> results \<noteq> []"
    and "failed (backend k)"
  shows "executeSearchAllPages_serpapi backend query =
     Inr (\<lparr>organic_results = Some (concat (map (\<lambda>j. serpapi_page (backend j)) [0..<k]))\<rparr>,
          map (\<lambda>j. \<lparr>req_q = query, req_num = 10, req_start = Some (j * 10)\<rparr>) [0..<Suc k])"
proof -
  have u: "executeSearchAllPages_serpapi_loop backend query 0 [] [] =
     executeSearchAllPages_serpapi_loop backend query (0 + k)
       ([] @ concat (map (\<lambda>j. serpapi_page (backend j)) [length ([] :: request list)..<
           length ([] :: request list) + k]))
       ([] @ map (\<lambda>j. \<lparr>req_q = query, req_num = 10, req_start = Some ((0 + j) * 10)\<rparr>) [0..<k])"
    by (rule serpapi_loop_unroll) (use assms(1,2) in auto)
  from assms(3) have f: "backend k = Rejected \<or> backend k = Http_NotOk"
    by (simp add: failed_def split: outcome.splits)
  show ?thesis
    unfolding executeSearchAllPages_serpapi_def u
    using f assms(1)
    by (subst executeSearchAllPages_serpapi_loop.simps)
       (auto simp: Let_def)
qed

lemma serpapi_full_run:
  assumes "\<forall>k. length (serpapi_page (serp k)) = 10"
  shows "\<exists>rs sent. executeSearchAllPages_serpapi serp query =
           Inr (\<lparr>organic_results = Some rs\<rparr>, sent) \<and> length sent = 10 \<and> length rs = 100"
proof -
  have pages: "\<forall>j<10. \<exists>results. serp (length ([] :: request list) + j) =
                 Http_Ok \<lparr>organic_results = Some results\<rparr> \<and> results \<noteq> []"
  proof (intro allI impI)
    fix j :: nat
    from assms have "length (serpapi_page (serp j)) = 10" by blast
    then show "\<exists>results. serp (length ([] :: request list) + j) =
                 Http_Ok \<lparr>organic_results = Some results\<rparr> \<and> results \<noteq> []"
    proof (cases "serp j")
      case (Http_Ok body)
      with \<open>length (serpapi_page (serp j)) = 10\<close> show ?thesis
        by (cases body) (auto simp: serpapi_page_def split: option.splits)
    qed (simp_all add: serpapi_page_def)
  qed
  have u: "executeSearchAllPages_serpapi_loop serp query 0 [] [] =
     executeSearchAllPages_serpapi_loop serp query (0 + 10)
       ([] @ concat (map (\<lambda>j. serpapi_page (serp j)) [length ([] :: request list)..<
           length ([] :: request list) + 10]))
       ([] @ map (\<lambda>j. \<lparr>req_q = query, req_num = 10, req_start = Some ((0 + j) * 10)\<rparr>)
              [0..<10])"
    using pages by (rule serpapi_loop_unroll) simp
  have n: "length (concat (map (\<lambda>j. serpapi_page (serp j)) [0..<10])) = 10 * length [0..<10]"
    using assms by (rule length_concat_full_pages)
  show ?thesis
    unfolding executeSearchAllPages_serpapi_def u
    using n
    by (subst executeSearchAllPages_serpapi_loop.simps) simp
qed

lemma google_result:
  "\<exists>its sent. executeSearchAllPages_google backend query = Inr (\<lparr>items = Some its\<rparr>, sent) \<and>
     executeSearchAllPages_google_loop backend query 1 [] [] = (its, sent)"
  by (cases "executeSearchAllPages_google_loop backend query 1 [] []")
     (simp add: executeSearchAllPages_google_def)

lemma serpapi_result:
  "\<exists>rs sent. executeSearchAllPages_serpapi backend query =
       Inr (\<lparr>organic_results = Some rs\<rparr>, sent) \<and>
     executeSearchAllPages_serpapi_loop backend query 0 [] [] = (rs, sent)"
  by (cases "executeSearchAllPages_serpapi_loop backend query 0 [] []")
     (simp add: executeSearchAllPages_serpapi_def)

lemma google_37:
  assumes "backend 0 = Http_Ok \<lparr>items = Some p1\<rparr>" "backend 1 = Http_Ok \<lparr>items = Some p2\<rparr>"
    "backend 2 = Http_Ok \<lparr>items = Some p3\<rparr>" "backend 3 = Http_Ok \<lparr>items = Some p4\<rparr>"
    "length p1 = 10" "length p2 = 10" "length p3 = 10" "length p4 = 7"
  shows "executeSearchAllPages_google backend query =
     Inr (\<lparr>items = Some (p1 @ p2 @ p3 @ p4)\<rparr>,
          map (\<lambda>start. \<lparr>req_q = query, req_num = 10, req_start = Some start\<rparr>) [1, 11, 21, 31])"
proof -
  have n: "(2::nat) = Suc (Suc 0)" "(3::nat) = Suc (Suc (Suc 0))"
    by simp_all
  show ?thesis
    using assms unfolding n
    by (simp add: executeSearchAllPages_google_def executeSearchAllPages_google_loop.simps
          Let_def maxResults_def)
qed

lemma serpapi_37:
  assumes "serp 0 = Http_Ok \<lparr>organic_results = Some r1\<rparr>"
    "serp 1 = Http_Ok \<lparr>organic_results = Some r2\<rparr>"
    "serp 2 = Http_Ok \<lparr>organic_results = Some r3\<rparr>"
    "serp 3 = Http_Ok \<lparr>organic_results = Some r4\<rparr>"
    "length r1 = 10" "length r2 = 10" "length r3 = 10" "length r4 = 7"
    "serpapi_page (serp 4) = []"
  shows "executeSearchAllPages_serpapi serp query =
     Inr (\<lparr>organic_results = Some (r1 @ r2 @ r3 @ r4)\<rparr>,
          map (\<lambda>start. \<lparr>req_q = query, req_num = 10, req_start = Some start\<rparr>)
            [0, 10, 20, 30, 40])"
proof -
  from assms(9) have last:
    "(case serp 4 of
        Http_Ok body \<Rightarrow> (case organic_results body of None \<Rightarrow> True | Some rs \<Rightarrow> rs = [])
      | _ \<Rightarrow> True)"
    by (simp add: serpapi_page_def split: outcome.splits option.splits)
  have r: "r1 \<noteq> []" "r2 \<noteq> []" "r3 \<noteq> []" "r4 \<noteq> []"
    using assms(5-8) by auto
  have n: "(2::nat) = Suc (Suc 0)" "(3::nat) = Suc (Suc (Suc 0))"
    "(4::nat) = Suc (Suc (Suc (Suc 0)))"
    by simp_all
  show ?thesis
    using assms(1-4) r last unfolding n
    by (simp add: executeSearchAllPages_serpapi_def executeSearchAllPages_serpapi_loop.simps
          Let_def split: outcome.splits option.splits)
qed

lemma serpapi_loop_strict:
  assumes "page < 10"
    and "executeSearchAllPages_serpapi_loop backend query page allResults sent = (rs, sent')"
  shows "length sent < length sent'"
proof (cases "\<exists>body results. backend (length sent) = Http_Ok body \<and>
                organic_results body = Some results \<and> length results \<noteq> 0")
  case False
  with assms show ?thesis
    by (subst (asm) executeSearchAllPages_serpapi_loop.simps)
       (auto simp: Let_def split: outcome.splits option.splits if_splits)
next
  case True
  then obtain body results where b: "backend (length sent) = Http_Ok body"
    and r: "organic_results body = Some results" and c: "length results \<noteq> 0" by blast
  let ?sent = "sent @ [\<lparr>req_q = query, req_num = 10, req_start = Some (page * 10)\<rparr>]"
  from assms b r c
  have "executeSearchAllPages_serpapi_loop backend query (page + 1)
               (allResults @ results) ?sent = (rs, sent')"
    by (subst (asm) executeSearchAllPages_serpapi_loop.simps) (simp add: Let_def)
  from serpapi_loop_items [OF this] show ?thesis by simp
qed

lemma serpapi_37_at_least:
  assumes "serp 0 = Http_Ok \<lparr>organic_results = Some r1\<rparr>"
    "serp 1 = Http_Ok \<lparr>organic_results = Some r2\<rparr>"
    "serp 2 = Http_Ok \<lparr>organic_results = Some r3\<rparr>"
    "serp 3 = Http_Ok \<lparr>organic_results = Some r4\<rparr>"
    "length r1 = 10" "length r2 = 10" "length r3 = 10" "length r4 = 7"
  shows "\<exists>rs sent. executeSearchAllPages_serpapi serp query =
           Inr (\<lparr>organic_results = Some rs\<rparr>, sent) \<and>
           5 \<le> length sent \<and> take 37 rs = r1 @ r2 @ r3 @ r4"
proof -
  have r: "r1 \<noteq> []" "r2 \<noteq> []" "r3 \<noteq> []" "r4 \<noteq> []"
    using assms(5-8) by auto
  have n: "(2::nat) = Suc (Suc 0)" "(3::nat) = Suc (Suc (Suc 0))"
    by simp_all
  define four where "four = map (\<lambda>start. \<lparr>req_q = query, req_num = 10, req_start = Some start\<rparr>)
            [0, 10, 20, 30 :: nat]"
  have u: "executeSearchAllPages_serpapi_loop serp query 0 [] [] =
     executeSearchAllPages_serpapi_loop serp query (Suc (Suc (Suc (Suc 0)))) (r1 @ r2 @ r3 @ r4) four"
    using assms(1-4) r unfolding n four_def
    by (subst executeSearchAllPages_serpapi_loop.simps, simp add: Let_def)
       (subst executeSearchAllPages_serpapi_loop.simps, simp add: Let_def,
        subst executeSearchAllPages_serpapi_loop.simps, simp add: Let_def,
        subst executeSearchAllPages_serpapi_loop.simps, simp add: Let_def)
  obtain rs sent where res: "executeSearchAllPages_serpapi serp query =
      Inr (\<lparr>organic_results = Some rs\<rparr>, sent)"
    and l: "executeSearchAllPages_serpapi_loop serp query 0 [] [] = (rs, sent)"
    using serpapi_result by blast
  from l u have l4: "executeSearchAllPages_serpapi_loop serp query (Suc (Suc (Suc (Suc 0)))) (r1 @ r2 @ r3 @ r4) four =
      (rs, sent)" by simp
  have "length four < length sent"
    by (rule serpapi_loop_strict [OF _ l4]) simp
  then have five: "5 \<le> length sent" by (simp add: four_def)
  from serpapi_loop_items [OF l4]
  have "rs = (r1 @ r2 @ r3 @ r4) @
          concat (map (\<lambda>k. serpapi_page (serp k)) [length four..<length sent])" by simp
  then have "take 37 rs = r1 @ r2 @ r3 @ r4"
    using assms(5-8) by simp
  with res five show ?thesis by blast
qed

text \<open>
  Claim C3, as amended. Let the first four fetches deliver pages of 10, 10, 10 and 7
  items. The fetcher of the Google service makes exactly 4 fetches (with start 1, 11,
  21, 31) and returns the 37 items in page order, whatever a later fetch would deliver.
  The fetcher of the SerpAPI service does not stop at a short page: it always makes a
  fifth fetch, and its result begins with the 37 items. When the fifth fetch delivers
  nothing (it fails, or carries no results) the fetcher has made exactly 5 fetches (with
  start 0, 10, 20, 30, 40) and returns the 37 items in page order.
\<close>

theorem short_page_termination:
  assumes "backend 0 = Http_Ok \<lparr>items = Some p1\<rparr>" "backend 1 = Http_Ok \<lparr>items = Some p2\<rparr>"
    "backend 2 = Http_Ok \<lparr>items = Some p3\<rparr>" "backend 3 = Http_Ok \<lparr>items = Some p4\<rparr>"
    "length p1 = 10" "length p2 = 10" "length p3 = 10" "length p4 = 7"
    "serp 0 = Http_Ok \<lparr>organic_results = Some r1\<rparr>"
    "serp 1 = Http_Ok \<lparr>organic_results = Some r2\<rparr>"
    "serp 2 = Http_Ok \<lparr>organic_results = Some r3\<rparr>"
    "serp 3 = Http_Ok \<lparr>organic_results = Some r4\<rparr>"
    "length r1 = 10" "length r2 = 10" "length r3 = 10" "length r4 = 7"
  shows "executeSearchAllPages_google backend query =
     Inr (\<lparr>items = Some (p1 @ p2 @ p3 @ p4)\<rparr>,
          map (\<lambda>start. \<lparr>req_q = query, req_num = 10, req_start = Some start\<rparr>)
            [1, 11, 21, 31]) \<and>
   (\<exists>rs sent. executeSearchAllPages_serpapi serp query =
        Inr (\<lparr>organic_results = Some rs\<rparr>, sent) \<and>
      5 \<le> length sent \<and> take 37 rs = r1 @ r2 @ r3 @ r4) \<and>
   (serpapi_page (serp 4) = [] \<longrightarrow>
      executeSearchAllPages_serpapi serp query =
        Inr (\<lparr>organic_results = Some (r1 @ r2 @ r3 @ r4)\<rparr>,
             map (\<lambda>start. \<lparr>req_q = query, req_num = 10, req_start = Some start\<rparr>)
               [0, 10, 20, 30, 40]))"
  using google_37 [OF assms(1-8)] serpapi_37 [OF assms(9-16)]
    serpapi_37_at_least [OF assms(9-16)]
  by blast

text \<open>The amended claim C3 at the test backends with pages of sizes 10, 10, 10, 7.\<close>

theorem short_page_termination_witness:
  "executeSearchAllPages_google google_backend_37 ''q'' =
     Inr (\<lparr>items = Some (replicate 10 google_sample @ replicate 10 google_sample @
                          replicate 10 google_sample @ replicate 7 google_sample)\<rparr>,
          map (\<lambda>start. \<lparr>req_q = ''q'', req_num = 10, req_start = Some start\<rparr>)
            [1, 11, 21, 31]) \<and>
   executeSearchAllPages_serpapi serpapi_backend_37 ''q'' =
     Inr (\<lparr>organic_results = Some (replicate 10 serpapi_sample @ replicate 10 serpapi_sample @
                          replicate 10 serpapi_sample @ replicate 7 serpapi_sample)\<rparr>,
          map (\<lambda>start. \<lparr>req_q = ''q'', req_num = 10, req_start = Some start\<rparr>)
            [0, 10, 20, 30, 40])"
proof -
  have last: "serpapi_page (serpapi_backend_37 4) = []"
    by (simp add: serpapi_backend_37_def serpapi_page_def)
  have "executeSearchAllPages_google google_backend_37 ''q'' =
     Inr (\<lparr>items = Some (replicate 10 google_sample @ replicate 10 google_sample @
                          replicate 10 google_sample @ replicate 7 google_sample)\<rparr>,
          map (\<lambda>start. \<lparr>req_q = ''q'', req_num = 10, req_start = Some start\<rparr>)
            [1, 11, 21, 31]) \<and>
   (\<exists>rs sent. executeSearchAllPages_serpapi serpapi_backend_37 ''q'' =
        Inr (\<lparr>organic_results = Some rs\<rparr>, sent) \<and>
      5 \<le> length sent \<and>
      take 37 rs = replicate 10 serpapi_sample @ replicate 10 serpapi_sample @
                   replicate 10 serpapi_sample @ replicate 7 serpapi_sample) \<and>
   (serpapi_page (serpapi_backend_37 4) = [] \<longrightarrow>
      executeSearchAllPages_serpapi serpapi_backend_37 ''q'' =
        Inr (\<lparr>organic_results = Some (replicate 10 serpapi_sample @ replicate 10 serpapi_sample @
                          replicate 10 serpapi_sample @ replicate 7 serpapi_sample)\<rparr>,
             map (\<lambda>start. \<lparr>req_q = ''q'', req_num = 10, req_start = Some start\<rparr>)
               [0, 10, 20, 30, 40]))"
    by (rule short_page_termination)
       (simp_all add: google_backend_37_def serpapi_backend_37_def)
  with last show ?thesis by blast
qed

text \<open>
  Claim C3 as stated fails for the SerpAPI service: on pages of sizes 10, 10, 10, 7 it
  makes five fetches, not four.
\<close>

theorem short_page_counterexample:
  "executeSearchAllPages_serpapi serpapi_backend_37 ''q'' =
     Inr (\<lparr>organic_results = Some (replicate 37 serpapi_sample)\<rparr>,
          map (\<lambda>start. \<lparr>req_q = ''q'', req_num = 10, req_start = Some start\<rparr>)
            [0, 10, 20, 30, 40])"
  by code_simp

text \<open>
  Claim C4, as amended. Whatever the backend does, either fetcher returns after at most
  10 fetches. It returns at most 100 items when no fetch delivers more than 10 items;
  the fetchers do not cut a page that is longer. On a backend that always delivers
  pages of exactly 10 items either fetcher makes exactly 10 fetches and returns exactly
  100 items.
\<close>

theorem exhaustive_ceiling:
  "(\<exists>its sent. executeSearchAllPages_google backend query = Inr (\<lparr>items = Some its\<rparr>, sent) \<and>
      length sent \<le> 10 \<and>
      ((\<forall>k. length (google_page (backend k)) \<le> 10) \<longrightarrow> length its \<le> 100) \<and>
      ((\<forall>k. length (google_page (backend k)) = 10) \<longrightarrow>
         length sent = 10 \<and> length its = 100)) \<and>
   (\<exists>rs sent. executeSearchAllPages_serpapi serp query =
        Inr (\<lparr>organic_results = Some rs\<rparr>, sent) \<and>
      length sent \<le> 10 \<and>
      ((\<forall>k. length (serpapi_page (serp k)) \<le> 10) \<longrightarrow> length rs \<le> 100) \<and>
      ((\<forall>k. length (serpapi_page (serp k)) = 10) \<longrightarrow>
         length sent = 10 \<and> length rs = 100))"
proof -
  obtain its sent where g: "executeSearchAllPages_google backend query =
      Inr (\<lparr>items = Some its\<rparr>, sent)"
    and gl: "executeSearchAllPages_google_loop backend query 1 [] [] = (its, sent)"
    using google_result by blast
  have g1: "length sent \<le> 10"
    using google_loop_fetches [OF gl] by simp
  have gi: "its = concat (map (\<lambda>k. google_page (backend k)) [0..<length sent])"
    using google_loop_items [OF gl] by simp
  have g2: "length its \<le> 100" if "\<forall>k. length (google_page (backend k)) \<le> 10"
  proof -
    have "length its \<le> 10 * length [0..<length sent]"
      unfolding gi using that by (rule length_concat_pages)
    with g1 show ?thesis by simp
  qed
  have g3: "length sent = 10 \<and> length its = 100"
    if full: "\<forall>k. length (google_page (backend k)) = 10"
  proof -
    have n: "length sent = 10"
      using google_loop_fetches_full [OF full gl] by simp
    have "length its = 10 * length [0..<length sent]"
      unfolding gi using full by (rule length_concat_full_pages)
    with n show ?thesis by simp
  qed
  obtain rs sent2 where s: "executeSearchAllPages_serpapi serp query =
      Inr (\<lparr>organic_results = Some rs\<rparr>, sent2)"
    and sl: "executeSearchAllPages_serpapi_loop serp query 0 [] [] = (rs, sent2)"
    using serpapi_result by blast
  have s1: "length sent2 \<le> 10"
    using serpapi_loop_fetches [OF sl] by simp
  have si: "rs = concat (map (\<lambda>k. serpapi_page (serp k)) [0..<length sent2])"
    using serpapi_loop_items [OF sl] by simp
  have s2: "length rs \<le> 100" if "\<forall>k. length (serpapi_page (serp k)) \<le> 10"
  proof -
    have "length rs \<le> 10 * length [0..<length sent2]"
      unfolding si using that by (rule length_concat_pages)
    with s1 show ?thesis by simp
  qed
  have s3: "length sent2 = 10 \<and> length rs = 100"
    if "\<forall>k. length (serpapi_page (serp k)) = 10"
    using serpapi_full_run [OF that, of query] s by auto
  show ?thesis
    using g g1 g2 g3 s s1 s2 s3 by blast
qed

text \<open>The amended claim C4 at the backend that always delivers pages of 10 items.\<close>

theorem exhaustive_ceiling_witness:
  "\<exists>its sent. executeSearchAllPages_google google_backend_full ''q'' =
      Inr (\<lparr>items = Some its\<rparr>, sent) \<and> length sent = 10 \<and> length its = 100"
proof -
  have full: "\<forall>k. length (google_page (google_backend_full k)) = 10"
    by (simp add: google_page_def google_backend_full_def)
  show ?thesis
    using exhaustive_ceiling [of google_backend_full "''q''"] full by blast
qed

text \<open>
  Claim C4 as stated fails: on a backend that answers every fetch with 11 items the
  fetcher of the Google service returns 110 items.
\<close>

theorem exhaustive_ceiling_counterexample:
  "executeSearchAllPages_google google_backend_oversized ''q'' =
     Inr (\<lparr>items = Some (replicate 110 google_sample)\<rparr>,
          map (\<lambda>start. \<lparr>req_q = ''q'', req_num = 10, req_start = Some start\<rparr>)
            [1, 11, 21, 31, 41, 51, 61, 71, 81, 91])"
  by code_simp

text \<open>
  Claim C5. When a run of either fetcher makes \<open>k + 1\<close> fetches and the last of them
  fails (it is rejected, or its status is not ok), the run returns exactly the items of
  the first \<open>k\<close> fetches, in page order. Such runs exist for every \<open>k\<close> below 10: when
  the first \<open>k\<close> fetches deliver pages that keep the pagination going (full pages for
  the Google service, pages with results for the SerpAPI service) and fetch \<open>k + 1\<close>
  fails, the run makes exactly \<open>k + 1\<close> fetches and returns the items of the first \<open>k\<close>
  pages. Either fetcher always resolves: its result is never an exception.
\<close>

theorem partial_failure:
  "(executeSearchAllPages_google backend query = Inr (response, sent) \<and>
      length sent = Suc k \<and> failed (backend k) \<longrightarrow>
        items response = Some (concat (map (\<lambda>j. google_page (backend j)) [0..<k]))) \<and>
   (executeSearchAllPages_serpapi serp query = Inr (serpResponse, serpSent) \<and>
      length serpSent = Suc k \<and> failed (serp k) \<longrightarrow>
        organic_results serpResponse =
          Some (concat (map (\<lambda>j. serpapi_page (serp j)) [0..<k]))) \<and>
   (\<exists>response sent. executeSearchAllPages_google backend query = Inr (response, sent)) \<and>
   (\<exists>response sent. executeSearchAllPages_serpapi serp query = Inr (response, sent)) \<and>
   (k < 10 \<and> failed (backend k) \<and>
      (\<forall>j<k. \<exists>page. backend j = Http_Ok \<lparr>items = Some page\<rparr> \<and> 10 \<le> length page) \<longrightarrow>
        executeSearchAllPages_google backend query =
          Inr (\<lparr>items = Some (concat (map (\<lambda>j. google_page (backend j)) [0..<k]))\<rparr>,
               map (\<lambda>j. \<lparr>req_q = query, req_num = 10, req_start = Some (1 + 10 * j)\<rparr>)
                 [0..<Suc k])) \<and>
   (k < 10 \<and> failed (serp k) \<and>
      (\<forall>j<k. \<exists>results. serp j = Http_Ok \<lparr>organic_results = Some results\<rparr> \<and>
         results \<noteq> []) \<longrightarrow>
        executeSearchAllPages_serpapi serp query =
          Inr (\<lparr>organic_results = Some (concat (map (\<lambda>j. serpapi_page (serp j)) [0..<k]))\<rparr>,
               map (\<lambda>j. \<lparr>req_q = query, req_num = 10, req_start = Some (j * 10)\<rparr>)
                 [0..<Suc k]))"
proof -
  obtain its sent0 where g: "executeSearchAllPages_google backend query =
      Inr (\<lparr>items = Some its\<rparr>, sent0)"
    and gl: "executeSearchAllPages_google_loop backend query 1 [] [] = (its, sent0)"
    using google_result by blast
  have gi: "its = concat (map (\<lambda>j. google_page (backend j)) [0..<length sent0])"
    using google_loop_items [OF gl] by simp
  have a: "items response = Some (concat (map (\<lambda>j. google_page (backend j)) [0..<k]))"
    if "executeSearchAllPages_google backend query = Inr (response, sent)"
      and "length sent = Suc k" and "failed (backend k)"
  proof -
    from that(1) g have "response = \<lparr>items = Some its\<rparr>" "sent = sent0" by simp_all
    moreover from that(3) have "google_page (backend k) = []"
      by (simp add: failed_def google_page_def split: outcome.splits)
    ultimately show ?thesis using gi that(2) by simp
  qed
  obtain rs sent1 where s: "executeSearchAllPages_serpapi serp query =
      Inr (\<lparr>organic_results = Some rs\<rparr>, sent1)"
    and sl: "executeSearchAllPages_serpapi_loop serp query 0 [] [] = (rs, sent1)"
    using serpapi_result by blast
  have si: "rs = concat (map (\<lambda>j. serpapi_page (serp j)) [0..<length sent1])"
    using serpapi_loop_items [OF sl] by simp
  have b: "organic_results serpResponse =
          Some (concat (map (\<lambda>j. serpapi_page (serp j)) [0..<k]))"
    if "executeSearchAllPages_serpapi serp query = Inr (serpResponse, serpSent)"
      and "length serpSent = Suc k" and "failed (serp k)"
  proof -
    from that(1) s have "serpResponse = \<lparr>organic_results = Some rs\<rparr>" "serpSent = sent1"
      by simp_all
    moreover from that(3) have "serpapi_page (serp k) = []"
      by (simp add: failed_def serpapi_page_def split: outcome.splits)
    ultimately show ?thesis using si that(2) by simp
  qed
  have c: "executeSearchAllPages_google backend query =
          Inr (\<lparr>items = Some (concat (map (\<lambda>j. google_page (backend j)) [0..<k]))\<rparr>,
               map (\<lambda>j. \<lparr>req_q = query, req_num = 10, req_start = Some (1 + 10 * j)\<rparr>)
                 [0..<Suc k])"
    if "k < 10" and "failed (backend k)"
      and "\<forall>j<k. \<exists>page. backend j = Http_Ok \<lparr>items = Some page\<rparr> \<and> 10 \<le> length page"
    using that by (intro google_run_until_failure)
  have d: "executeSearchAllPages_serpapi serp query =
          Inr (\<lparr>organic_results = Some (concat (map (\<lambda>j. serpapi_page (serp j)) [0..<k]))\<rparr>,
               map (\<lambda>j. \<lparr>req_q = query, req_num = 10, req_start = Some (j * 10)\<rparr>)
                 [0..<Suc k])"
    if "k < 10" and "failed (serp k)"
      and "\<forall>j<k. \<exists>results. serp j = Http_Ok \<lparr>organic_results = Some results\<rparr> \<and>
         results \<noteq> []"
    using that by (intro serpapi_run_until_failure)
  have e: "\<exists>response sent. executeSearchAllPages_google backend query = Inr (response, sent)"
    "\<exists>response sent. executeSearchAllPages_serpapi serp query = Inr (response, sent)"
    using g s by blast+
  show ?thesis
    using a b c d e by blast
qed

lemma google_fails_third_run:
  "executeSearchAllPages_google google_backend_fails_third ''q'' =
     Inr (\<lparr>items = Some (replicate 20 google_sample)\<rparr>,
          map (\<lambda>start. \<lparr>req_q = ''q'', req_num = 10, req_start = Some start\<rparr>) [1, 11, 21])"
  by code_simp

text \<open>
  Claim C5 at the backend that delivers two full pages and then fails: three fetches,
  and the 20 items of the first two.
\<close>

theorem partial_failure_witness:
  "failed (google_backend_fails_third 2) \<and>
   executeSearchAllPages_google google_backend_fails_third ''q'' =
     Inr (\<lparr>items = Some (replicate 20 google_sample)\<rparr>,
          map (\<lambda>start. \<lparr>req_q = ''q'', req_num = 10, req_start = Some start\<rparr>) [1, 11, 21]) \<and>
   items \<lparr>items = Some (replicate 20 google_sample)\<rparr> =
     Some (concat (map (\<lambda>j. google_page (google_backend_fails_third j)) [0..<2]))"
proof -
  have f: "failed (google_backend_fails_third 2)"
    by (simp add: failed_def google_backend_fails_third_def)
  show ?thesis
    using partial_failure [of google_backend_fails_third "''q''"
        "\<lparr>items = Some (replicate 20 google_sample)\<rparr>"
        "map (\<lambda>start. \<lparr>req_q = ''q'', req_num = 10, req_start = Some start\<rparr>) [1, 11, 21]" 2]
      f google_fails_third_run
    by simp
qed

text \<open>
  Claim C6, as amended. In bounded mode a failed fetch makes
  \<^verbatim>\<open>LinkedInProfileSearchService.executeSearch\<close> reject with an \<^verbatim>\<open>Error\<close>, while a
  successful fetch resolves with its body, so the caller can tell the two apart. A
  failed fetch makes \<^verbatim>\<open>SerpApiSearchService.executeSearch\<close> resolve with
  \<^verbatim>\<open>{ organic_results: [] }\<close>: it never rejects.
\<close>

theorem bounded_failure:
  "(failed fetched \<longrightarrow> executeSearch_google fetched query numResults = Inl Error) \<and>
   (\<exists>sent. executeSearch_google (Http_Ok body) query numResults = Inr (body, sent)) \<and>
   (failed serpFetched \<longrightarrow>
      (\<exists>sent. executeSearch_serpapi serpFetched query numResults =
         Inr (\<lparr>organic_results = Some []\<rparr>, sent))) \<and>
   (\<exists>sent. executeSearch_serpapi (Http_Ok serpBody) query numResults = Inr (serpBody, sent))"
  by (auto simp: failed_def executeSearch_google_def executeSearch_serpapi_def Let_def
        split: outcome.splits)

text \<open>The amended claim C6 at a fetch whose status is not ok.\<close>

theorem bounded_failure_witness:
  "failed (Http_NotOk :: GoogleSearchResponse outcome) \<and>
   executeSearch_google Http_NotOk ''q'' 10 = Inl Error \<and>
   executeSearch_google (Http_Ok \<lparr>items = Some []\<rparr>) ''q'' 10 =
     Inr (\<lparr>items = Some []\<rparr>, [\<lparr>req_q = ''q'', req_num = 10, req_start = None\<rparr>])"
proof -
  have f: "failed (Http_NotOk :: GoogleSearchResponse outcome)"
    by (simp add: failed_def)
  have ok: "executeSearch_google (Http_Ok \<lparr>items = Some []\<rparr>) ''q'' 10 =
     Inr (\<lparr>items = Some []\<rparr>, [\<lparr>req_q = ''q'', req_num = 10, req_start = None\<rparr>])"
    by (simp add: executeSearch_google_def)
  show ?thesis
    using bounded_failure [of "Http_NotOk :: GoogleSearchResponse outcome" "''q''" 10] f ok
    by simp
qed

text \<open>
  Claim C6 as stated fails for the SerpAPI service: a failed fetch and a successful fetch
  without results give the caller the same value.
\<close>

theorem bounded_failure_counterexample:
  "executeSearch_serpapi Http_NotOk ''q'' 10 =
     Inr (\<lparr>organic_results = Some []\<rparr>, [\<lparr>req_q = ''q'', req_num = 10, req_start = None\<rparr>]) \<and>
   executeSearch_serpapi Rejected ''q'' 10 =
     Inr (\<lparr>organic_results = Some []\<rparr>, [\<lparr>req_q = ''q'', req_num = 10, req_start = None\<rparr>]) \<and>
   executeSearch_serpapi (Http_Ok \<lparr>organic_results = Some []\<rparr>) ''q'' 10 =
     Inr (\<lparr>organic_results = Some []\<rparr>, [\<lparr>req_q = ''q'', req_num = 10, req_start = None\<rparr>])"
  by (simp add: executeSearch_serpapi_def)

end
